theory Spec2Isabelle
  imports Complex_Main "HOL-Library.Sublist"
begin


section \<open>Strings\<close>

text \<open>
  A JavaScript string is a sequence of UTF-16 code units. The model takes the code units
  below 256 (\<^typ>\<open>char\<close> holds exactly those), where the library functions the program
  calls are simple: \<open>trim\<close> and the regular expression class \<open>\s\<close> remove the code
  units 9 to 13, 32 and 160, and \<open>toLowerCase\<close> adds 32 to the codes 65..90 (A..Z) and
  192..222 except 215 (the capital letters of Latin-1). Adding 32 to one of those codes sets
  bit 5, which is clear there.
\<close>

definition isSpace :: "char \<Rightarrow> bool" where
  "isSpace c = (c = CHR 0x09 \<or> c = CHR 0x0A \<or> c = CHR 0x0B \<or> c = CHR 0x0C \<or> c = CHR 0x0D
                \<or> c = CHR '' '' \<or> c = CHR 0xA0)"

definition isUpper :: "char \<Rightarrow> bool" where
  "isUpper c = (let n = (of_char c :: nat) in
     (65 \<le> n \<and> n \<le> 90) \<or> (192 \<le> n \<and> n \<le> 222 \<and> n \<noteq> 215))"

definition lowerChar :: "char \<Rightarrow> char" where
  "lowerChar c = (if isUpper c
     then Char (digit0 c) (digit1 c) (digit2 c) (digit3 c) (digit4 c) True (digit6 c) (digit7 c)
     else c)"

definition toLowerCase :: "string \<Rightarrow> string" where
  "toLowerCase s = map lowerChar s"

definition trim :: "string \<Rightarrow> string" where
  "trim s = rev (dropWhile isSpace (rev (dropWhile isSpace s)))"

text \<open>\<open>hay.includes(needle)\<close>: the needle occurs in the haystack as a contiguous run.\<close>

fun str_includes :: "string \<Rightarrow> string \<Rightarrow> bool" where
  "str_includes [] needle = (needle = [])"
| "str_includes (c # cs) needle = (prefix needle (c # cs) \<or> str_includes cs needle)"

text \<open>\<open>/^https?:\/\//i.test(s)\<close>: the string starts with http:// or https://, in any case.\<close>

definition isAbsoluteUrl :: "string \<Rightarrow> bool" where
  "isAbsoluteUrl s = (prefix ''http://'' (toLowerCase s) \<or> prefix ''https://'' (toLowerCase s))"

text \<open>
  \<open>s.split(re)\<close> for a regular expression that matches one character of a class: the
  pieces between the matches, of which there is always at least one.
\<close>

fun splitOn :: "(char \<Rightarrow> bool) \<Rightarrow> string \<Rightarrow> string list" where
  "splitOn d [] = [[]]"
| "splitOn d (c # cs) =
     (if d c then [] # splitOn d cs
      else (case splitOn d cs of p # ps \<Rightarrow> (c # p) # ps | [] \<Rightarrow> [[c]]))"

text \<open>\<open>s.replace(/\s+/g, ' ')\<close>: every maximal run of white space becomes one blank.\<close>

fun collapseFrom :: "bool \<Rightarrow> string \<Rightarrow> string" where
  "collapseFrom inRun [] = []"
| "collapseFrom inRun (c # cs) =
     (if isSpace c then (if inRun then collapseFrom True cs else CHR '' '' # collapseFrom True cs)
      else c # collapseFrom False cs)"

definition collapseWs :: "string \<Rightarrow> string" where
  "collapseWs s = collapseFrom False s"


section \<open>City and diet canonicalization\<close>

text \<open>
  \<open>canonicalCity\<close> and \<open>canonicalDiet\<close> look their key up in an object literal,
  \<open>map[v]\<close>. Such a lookup finds the properties written in the literal and, for a key the
  literal does not have, the properties every object inherits from \<open>Object.prototype\<close>. The
  keys are lowercased first, and two inherited names are lowercase: \<open>constructor\<close>, under
  which the lookup yields the function \<open>Object\<close>, and \<open>__proto__\<close>, under which it yields
  \<open>Object.prototype\<close>. So a value these functions return is a string or one of those two
  objects, each identical to itself only. Every value written in the tables is a non-empty
  string and the two objects are truthy, so \<open>map[v] || d\<close> yields \<open>d\<close> exactly when the
  lookup finds nothing.
\<close>

datatype js_text = Str string | Inherited string

definition inheritedKeys :: "string list" where
  "inheritedKeys = [''constructor'', ''__proto__'']"

definition lookupIn :: "(string \<times> string) list \<Rightarrow> string \<Rightarrow> js_text option" where
  "lookupIn table k =
     (case map_of table k of
        Some v \<Rightarrow> Some (Str v)
      | None \<Rightarrow> (if k \<in> set inheritedKeys then Some (Inherited k) else None))"

definition cityMap :: "(string \<times> string) list" where
  "cityMap =
    [(''nyc'', ''New York''),
     (''new york'', ''New York''),
     (''new york city'', ''New York''),
     (''los angeles'', ''Los Angeles''),
     (''la'', ''Los Angeles''),
     (''san francisco'', ''San Francisco''),
     (''sf'', ''San Francisco''),
     (''san fran'', ''San Francisco''),
     (''houston'', ''Houston''),
     (''austin'', ''Austin'')]"

definition orEmpty :: "string option \<Rightarrow> string" where
  "orEmpty v = (case v of None \<Rightarrow> [] | Some s \<Rightarrow> s)"

text \<open>The argument of \<open>canonicalCity\<close> may be \<open>null\<close>.\<close>

definition canonicalCity :: "string option \<Rightarrow> js_text" where
  "canonicalCity value =
     (let v = toLowerCase (trim (orEmpty value))
      in case lookupIn cityMap v of
           Some c \<Rightarrow> c
         | None \<Rightarrow> (case value of None \<Rightarrow> Str [] | Some s \<Rightarrow> Str (trim s)))"

text \<open>
  \<open>canonicalCity\<close> applied to a value it returned: on one of the two objects,
  \<open>(value || '').trim()\<close> calls a method the object does not have.
\<close>

datatype js_error = TypeError

fun canonicalCityAgain :: "js_text \<Rightarrow> js_error + js_text" where
  "canonicalCityAgain (Str s) = Inr (canonicalCity (Some s))"
| "canonicalCityAgain (Inherited k) = Inl TypeError"

text \<open>
  \<open>canonicalDiet\<close>: the last \<open>replace\<close> maps every character of the class written in
  the source to a hyphen. Of that class, the hyphen itself and the code unit 0xE2 lie below
  256; the other members (0x20AC, 0x201C, 0x201D) are outside the alphabet of the model.
\<close>

definition isDash :: "char \<Rightarrow> bool" where
  "isDash c = (c = CHR ''-'' \<or> c = CHR 0xE2)"

definition replaceDashes :: "string \<Rightarrow> string" where
  "replaceDashes s = map (\<lambda>c. if isDash c then CHR ''-'' else c) s"

definition dietMap :: "(string \<times> string) list" where
  "dietMap =
    [(''seed oil free'', ''seed-oil free''),
     (''seed-oil-free'', ''seed-oil free''),
     (''no seed oils'', ''seed-oil free''),
     (''no seed oil'', ''seed-oil free''),
     (''no seed-oils'', ''seed-oil free''),
     (''no seed-oil'', ''seed-oil free''),
     (''no-industrial-seed-oils'', ''seed-oil free''),
     (''no-industrial-seed-oil'', ''seed-oil free''),
     (''seed oil-free'', ''seed-oil free''),
     (''seed-oil- free'', ''seed-oil free''),
     (''plant based'', ''plant-based''),
     (''low fodmap'', ''low fodmap''),
     (''diabetic friendly'', ''diabetic-friendly''),
     (''heart healthy'', ''heart-healthy''),
     (''gluten free'', ''gluten-free''),
     (''dairy free'', ''dairy-free''),
     (''nut free'', ''nut-free''),
     (''soy free'', ''soy-free''),
     (''egg free'', ''egg-free''),
     (''shellfish free'', ''shellfish-free''),
     (''sesame free'', ''sesame-free''),
     (''no added sugar'', ''no added sugar''),
     (''no artificial sweeteners'', ''no artificial sweeteners''),
     (''organic ingredients'', ''organic ingredients''),
     (''locally sourced'', ''locally sourced'')]"

definition canonicalDiet :: "string \<Rightarrow> js_text" where
  "canonicalDiet value =
     (if value = [] then Str []
      else let v = replaceDashes (collapseWs (toLowerCase (trim value)))
           in case lookupIn dietMap v of Some c \<Rightarrow> c | None \<Rightarrow> Str v)"


section \<open>Values of the backend and of the runtime\<close>

text \<open>
  A value of type \<open>any\<close> that the backend delivers, or that \<open>JSON.parse\<close> returns.
  \<open>JNull\<close> stands for \<open>null\<close> and for a missing value (\<open>undefined\<close>): the program
  never tells them apart on such a value. An object lists its properties in the order they
  were written; a later one of the same name wins.
\<close>

datatype json =
    JNull
  | JBool bool
  | JNum real
  | JStr string
  | JArr "json list"
  | JObj "(string \<times> json) list"

fun truthy :: "json \<Rightarrow> bool" where
  "truthy JNull = False"
| "truthy (JBool b) = b"
| "truthy (JNum r) = (r \<noteq> 0)"
| "truthy (JStr s) = (s \<noteq> [])"
| "truthy (JArr xs) = True"
| "truthy (JObj kvs) = True"

fun isString :: "json \<Rightarrow> bool" where
  "isString (JStr s) = True"
| "isString v = False"

text \<open>\<open>typeof x === 'object'\<close> holds of \<open>null\<close>, of an array and of an object.\<close>

fun isObjectType :: "json \<Rightarrow> bool" where
  "isObjectType JNull = True"
| "isObjectType (JArr xs) = True"
| "isObjectType (JObj kvs) = True"
| "isObjectType v = False"

text \<open>
  \<open>x.k\<close> for one of the names \<open>url\<close>, \<open>src\<close> and \<open>images\<close>, which only an object
  can have. The program reads a property of \<open>null\<close> in one place only, inside a
  \<open>try\<close> block; that place is written out in \<open>resolveImageArray\<close>.
\<close>

fun getProp :: "json \<Rightarrow> string \<Rightarrow> json" where
  "getProp (JObj kvs) k = (case map_of (rev kvs) k of Some v \<Rightarrow> v | None \<Rightarrow> JNull)"
| "getProp v k = JNull"

definition jsOr :: "json \<Rightarrow> json \<Rightarrow> json" where
  "jsOr a b = (if truthy a then a else b)"

definition absoluteString :: "json \<Rightarrow> bool" where
  "absoluteString v = (case v of JStr s \<Rightarrow> isAbsoluteUrl s | _ \<Rightarrow> False)"

text \<open>
  \<open>/^https?:\/\//i.test(v)\<close> for a value that need not be a string: \<open>test\<close> converts
  its argument to a string first. A number, a boolean, \<open>null\<close> and an object
  (\<open>[object Object]\<close>) never convert to a string that matches. An array converts to its
  elements joined by commas, so it matches exactly when the conversion of its first element
  does, the pattern having no comma; \<open>null\<close> as an element converts to the empty string.
\<close>

fun regexTest :: "json \<Rightarrow> bool" where
  "regexTest (JStr s) = isAbsoluteUrl s"
| "regexTest (JArr (JStr s # xs)) = isAbsoluteUrl s"
| "regexTest (JArr (JArr ys # xs)) = regexTest (JArr ys)"
| "regexTest v = False"

text \<open>
  What the runtime provides: \<open>JSON.parse\<close> (\<open>None\<close> when it throws), the current date
  as \<open>new Date().toISOString().split('T')[0]\<close> gives it, and \<open>new Date(s).getTime()\<close>
  (\<open>None\<close> for \<open>NaN\<close>, the time of an invalid date).
\<close>

record runtime =
  JSON_parse :: "string \<Rightarrow> json option"
  today :: string
  getTime :: "string \<Rightarrow> int option"


section \<open>The data model\<close>

datatype VerificationMethod = CrunchTeamCalled | OwnerSubmitted | CrunchTeamVisited

fun methodName :: "VerificationMethod \<Rightarrow> string" where
  "methodName CrunchTeamCalled = ''Crunch Team Called''"
| "methodName OwnerSubmitted = ''Owner Submitted''"
| "methodName CrunchTeamVisited = ''Crunch Team Visited''"

text \<open>
  The canonical restaurant. \<open>imageUrl\<close> is declared a string; \<open>resolvePrimaryImage\<close>
  can return a value that is not one, so the field holds what is returned.
\<close>

record Restaurant =
  idR :: int
  name :: string
  address :: string
  neighborhood :: string
  city :: string
  oilsUsed :: "string list"
  oilsAvoided :: "string list"
  dietaryTags :: "string list"
  verified :: bool
  verificationDate :: "string option"
  verificationMethod :: "VerificationMethod option"
  website :: string
  instagram :: string
  menuLink :: string
  priceRange :: string
  orderType :: string
  sourcingNotes :: string
  imageUrl :: json
  imageUrls :: "string list"
  rating :: real
  reviewCount :: real
  hours :: string
  cuisine :: string
  lastUpdated :: string
  phone :: string
  email :: string
  latitude :: "real option"
  longitude :: "real option"
  outdoorSeating :: "bool option"
  delivery :: "bool option"
  familyFriendly :: "bool option"
  celiacSafe :: "bool option"
  recommendedDishes :: "json option"
  socialLinks :: "json option"

text \<open>
  The row of the \<open>restaurants\<close> relation, typed as \<open>RestaurantRow\<close> declares it, every
  column the program guards with \<open>??\<close> or \<open>||\<close> being nullable. An array of strings may
  hold \<open>null\<close> entries.
\<close>

datatype string_or_list = RawNull | RawString string | RawArray "string option list"

datatype location_value = LocNull | LocString string | LocNumber int

datatype dietary_tag = DietaryTag (tag_name: "string option")

datatype tag_join = TagJoin (dietary_tags: "dietary_tag option")

datatype city_relation = CityRel (rel_name: "string option")

record RestaurantRow =
  idRow :: int
  nameRow :: "string option"
  addressRow :: "string option"
  neighborhoodRow :: "string option"
  cityRow :: "string option"
  location :: location_value
  oils_used :: string_or_list
  oils_avoided :: string_or_list
  restaurant_dietary_tags :: "tag_join option list option"
  city_rel :: "city_relation option"
  verifiedRow :: "bool option"
  verification_date :: "string option"
  verification_method :: "string option"
  websiteRow :: "string option"
  instagramRow :: "string option"
  menu_link :: "string option"
  price_range :: "string option"
  order_type :: "string option"
  sourcing_notes :: "string option"
  image_url :: "string option"
  image_urls :: json
  ratingRow :: "real option"
  review_count :: "real option"
  hoursRow :: "string option"
  cuisineRow :: "string option"
  last_updated :: "string option"
  phoneRow :: "string option"
  emailRow :: "string option"
  latitudeRow :: "real option"
  longitudeRow :: "real option"
  outdoor_seating :: "bool option"
  deliveryRow :: "bool option"
  family_friendly :: "bool option"
  celiac_safe :: "bool option"
  recommended_dishes :: json
  social_links :: json

datatype Status = Pending | Approved | Rejected

record PendingRow =
  idPRow :: int
  namePRow :: "string option"
  addressPRow :: "string option"
  neighborhoodPRow :: "string option"
  cityPRow :: "string option"
  websitePRow :: "string option"
  notesPRow :: "string option"
  submitted_date :: "string option"
  statusPRow :: "Status option"

record PendingSubmission =
  idP :: int
  nameP :: string
  addressP :: string
  neighborhoodP :: string
  cityP :: string
  websiteP :: string
  notesP :: string
  submittedDate :: string
  status :: Status

record CityRow =
  idC :: int
  nameC :: string

record Filters =
  diet :: "string list"
  oils :: "string list"
  neighborhoodF :: string
  priceRangeF :: string
  verifiedF :: bool


section \<open>The field normalizer\<close>

definition isDelimiter :: "char \<Rightarrow> bool" where
  "isDelimiter c = (c = CHR '';'' \<or> c = CHR '','' \<or> c = CHR 0x0A)"

text \<open>
  \<open>splitToArray\<close>: \<open>filter(Boolean)\<close> drops \<open>null\<close> and the empty string.
\<close>

fun splitToArray :: "string_or_list \<Rightarrow> string list" where
  "splitToArray (RawArray v) = [s. Some s \<leftarrow> v, s \<noteq> []]"
| "splitToArray (RawString v) = filter (\<lambda>s. s \<noteq> []) (map trim (splitOn isDelimiter v))"
| "splitToArray RawNull = []"

definition tagsFromJoin :: "RestaurantRow \<Rightarrow> string list" where
  "tagsFromJoin row =
     (let joins = (case restaurant_dietary_tags row of None \<Rightarrow> [] | Some js \<Rightarrow> js);
          names = map (\<lambda>j. case j of
                              None \<Rightarrow> None
                            | Some (TagJoin None) \<Rightarrow> None
                            | Some (TagJoin (Some (DietaryTag n))) \<Rightarrow> n) joins
      in [s. Some s \<leftarrow> names, s \<noteq> []])"

definition fallbackImage :: string where
  "fallbackImage =
     ''https://images.unsplash.com/photo-1490474418585-ba9bad8fd0ea?q=80&w=1600&auto=format&fit=crop''"

definition hasUrlOrSrc :: "json \<Rightarrow> bool" where
  "hasUrlOrSrc x =
     (truthy x \<and> isObjectType x \<and> (isString (getProp x ''url'') \<or> isString (getProp x ''src'')))"

definition isImageEntry :: "json \<Rightarrow> bool" where
  "isImageEntry x =
     (absoluteString x \<or>
      (truthy x \<and> isObjectType x \<and> absoluteString (jsOr (getProp x ''url'') (getProp x ''src''))))"

text \<open>
  The \<open>try\<close> block of \<open>resolvePrimaryImage\<close>, on the value \<open>JSON.parse\<close> returned or
  the backend delivered: \<open>Some\<close> of what a \<open>return\<close> inside the block yields, \<open>None\<close>
  when control leaves the block without one.
\<close>

definition fromParsed :: "json \<Rightarrow> json option" where
  "fromParsed parsed =
     (case parsed of
        JArr xs \<Rightarrow>
          (case find absoluteString xs of
             Some fromString \<Rightarrow> Some fromString
           | None \<Rightarrow>
               (case find hasUrlOrSrc xs of
                  Some fromObj \<Rightarrow>
                    (let cand = jsOr (getProp fromObj ''url'') (getProp fromObj ''src'')
                     in if regexTest cand then Some cand else None)
                | None \<Rightarrow> None))
      | JObj kvs \<Rightarrow>
          (let direct = jsOr (getProp parsed ''url'') (getProp parsed ''src'')
           in if absoluteString direct then Some direct
              else (case getProp parsed ''images'' of
                      JArr images \<Rightarrow>
                        (case find isImageEntry images of
                           Some cand \<Rightarrow>
                             (if isString cand then Some cand
                              else (let c = jsOr (getProp cand ''url'') (getProp cand ''src'')
                                    in if regexTest c then Some c else None))
                         | None \<Rightarrow> None)
                    | _ \<Rightarrow> None))
      | JStr s \<Rightarrow> (if isAbsoluteUrl s then Some parsed else None)
      | _ \<Rightarrow> None)"

definition resolvePrimaryImage :: "runtime \<Rightarrow> RestaurantRow \<Rightarrow> json" where
  "resolvePrimaryImage rt row =
     (let primary = trim (orEmpty (image_url row))
      in if primary \<noteq> [] \<and> isAbsoluteUrl primary then JStr primary
         else
           (let iuRaw = image_urls row;
                iu = (case iuRaw of JStr s \<Rightarrow> JStr (trim s) | _ \<Rightarrow> iuRaw)
            in if \<not> truthy iu then JStr fallbackImage
               else
                 (let parsed = (case iu of JStr s \<Rightarrow> JSON_parse rt s | _ \<Rightarrow> Some iu);
                      inTry = (case parsed of None \<Rightarrow> None | Some p \<Rightarrow> fromParsed p)
                  in case inTry of
                       Some r \<Rightarrow> r
                     | None \<Rightarrow>
                         (case iu of
                            JStr s \<Rightarrow> (if isAbsoluteUrl (trim s) then JStr (trim s)
                                        else JStr fallbackImage)
                          | _ \<Rightarrow> JStr fallbackImage))))"

text \<open>The loops of \<open>resolveImageArray\<close>: the absolute URLs of the entries, in order.\<close>

fun entryUrls :: "json list \<Rightarrow> string list" where
  "entryUrls [] = []"
| "entryUrls (x # xs) =
     (let url = (if isString x then x else jsOr (getProp x ''url'') (getProp x ''src''))
      in case url of
           JStr u \<Rightarrow> (if isAbsoluteUrl u then u # entryUrls xs else entryUrls xs)
         | _ \<Rightarrow> entryUrls xs)"

text \<open>\<open>Array.from(new Set(out))\<close> keeps the first occurrence of every element.\<close>

definition dedupe :: "string list \<Rightarrow> string list" where
  "dedupe out = rev (remdups (rev out))"

definition resolveImageArray :: "runtime \<Rightarrow> RestaurantRow \<Rightarrow> string list" where
  "resolveImageArray rt row =
     (let primary = trim (orEmpty (image_url row));
          out = (if primary \<noteq> [] \<and> isAbsoluteUrl primary then [primary] else []);
          iuRaw = image_urls row
      in dedupe
           (if truthy iuRaw then
              (case (case iuRaw of JStr s \<Rightarrow> JSON_parse rt s | _ \<Rightarrow> Some iuRaw) of
                 None \<Rightarrow> out
               | Some (JArr xs) \<Rightarrow> out @ entryUrls xs
               | Some (JObj kvs) \<Rightarrow>
                   (case getProp (JObj kvs) ''images'' of
                      JArr images \<Rightarrow> out @ entryUrls images
                    | _ \<Rightarrow> out)
               | Some JNull \<Rightarrow> out
               | Some _ \<Rightarrow> out)
            else out))"

definition visitedKeywords :: "string list" where
  "visitedKeywords =
     [''crunch team visited'', ''visited'', ''visit'', ''site visit'', ''in person'',
      ''in-person'', ''team visited'']"

definition calledKeywords :: "string list" where
  "calledKeywords =
     [''crunch team called'', ''called'', ''call'', ''phone'', ''phone call'', ''phone-call'',
      ''phone verified'', ''phone-verified'', ''called by crunch'', ''team called'']"

text \<open>The classification inside \<open>mapRestaurantRow\<close> that fills \<open>verificationMethod\<close>.\<close>

definition classifyMethod :: "string option \<Rightarrow> VerificationMethod option" where
  "classifyMethod raw =
     (case raw of
        None \<Rightarrow> None
      | Some r \<Rightarrow>
          if r = [] then None
          else (let m = toLowerCase (trim r)
                in if list_ex (\<lambda>t. str_includes m t) visitedKeywords then Some CrunchTeamVisited
                   else if list_ex (\<lambda>t. str_includes m t) calledKeywords then Some CrunchTeamCalled
                   else Some OwnerSubmitted))"

definition parsedOrRaw :: "runtime \<Rightarrow> json \<Rightarrow> json option" where
  "parsedOrRaw rt v =
     (if \<not> truthy v then None
      else case v of
             JStr s \<Rightarrow> (case JSON_parse rt s of Some p \<Rightarrow> Some p | None \<Rightarrow> Some v)
           | _ \<Rightarrow> Some v)"

definition orDefault :: "'a \<Rightarrow> 'a option \<Rightarrow> 'a" where
  "orDefault d v = (case v of None \<Rightarrow> d | Some x \<Rightarrow> x)"

definition mapRestaurantRow :: "runtime \<Rightarrow> RestaurantRow \<Rightarrow> Restaurant" where
  "mapRestaurantRow rt row =
     \<lparr> idR = idRow row,
       name = orEmpty (nameRow row),
       address = orEmpty (addressRow row),
       neighborhood = orEmpty (neighborhoodRow row),
       city =
         (let other = (if orEmpty (cityRow row) \<noteq> [] then orEmpty (cityRow row)
                       else (case location row of LocString s \<Rightarrow> s | _ \<Rightarrow> []))
          in case city_rel row of
               Some (CityRel (Some n)) \<Rightarrow> n
             | _ \<Rightarrow> other),
       oilsUsed = splitToArray (oils_used row),
       oilsAvoided = splitToArray (oils_avoided row),
       dietaryTags = tagsFromJoin row,
       verified = (verifiedRow row = Some True),
       verificationDate = verification_date row,
       verificationMethod = classifyMethod (verification_method row),
       website = orEmpty (websiteRow row),
       instagram = orEmpty (instagramRow row),
       menuLink = orEmpty (menu_link row),
       priceRange = orDefault ''$$'' (price_range row),
       orderType = orDefault ''Dine-in'' (order_type row),
       sourcingNotes = orEmpty (sourcing_notes row),
       imageUrl = resolvePrimaryImage rt row,
       imageUrls = resolveImageArray rt row,
       rating = orDefault 0 (ratingRow row),
       reviewCount = orDefault 0 (review_count row),
       hours = orEmpty (hoursRow row),
       cuisine = orEmpty (cuisineRow row),
       lastUpdated = orDefault (today rt) (last_updated row),
       phone = orEmpty (phoneRow row),
       email = orEmpty (emailRow row),
       latitude = latitudeRow row,
       longitude = longitudeRow row,
       outdoorSeating = outdoor_seating row,
       delivery = deliveryRow row,
       familyFriendly = family_friendly row,
       celiacSafe = celiac_safe row,
       recommendedDishes = parsedOrRaw rt (recommended_dishes row),
       socialLinks = parsedOrRaw rt (social_links row) \<rparr>"

text \<open>\<open>getVerifyLabel\<close>, which takes a canonical method, a raw string or \<open>null\<close>.\<close>

definition getVerifyLabel :: "string option \<Rightarrow> string" where
  "getVerifyLabel method =
     (let m = toLowerCase (trim (orEmpty method))
      in if m = [] then []
         else (let visitMatch = list_ex (\<lambda>t. str_includes m t) visitedKeywords;
                   callMatch = list_ex (\<lambda>t. str_includes m t) calledKeywords
               in if visitMatch \<or> callMatch then ''Verified By Crunch'' else []))"

section \<open>The filter and sort engine\<close>

definition knownCities :: "string list" where
  "knownCities = [''New York'', ''Los Angeles'', ''San Francisco'', ''Houston'', ''Austin'']"

definition syns :: "(string \<times> string) list" where
  "syns =
    [(''nyc'', ''New York''),
     (''new york city'', ''New York''),
     (''new york'', ''New York''),
     (''los angeles'', ''Los Angeles''),
     (''la'', ''Los Angeles''),
     (''san francisco'', ''San Francisco''),
     (''san fran'', ''San Francisco''),
     (''sf'', ''San Francisco''),
     (''houston'', ''Houston''),
     (''austin'', ''Austin'')]"

definition getCity :: "Restaurant \<Rightarrow> js_text" where
  "getCity r =
     (if city r \<noteq> [] \<and> trim (city r) \<noteq> [] then canonicalCity (Some (city r))
      else (let src = toLowerCase (address r @ '' '' @ neighborhood r)
            in case find (\<lambda>(needle, nm). str_includes src needle) syns of
                 Some (needle, nm) \<Rightarrow> Str nm
               | None \<Rightarrow>
                   (case find (\<lambda>c. str_includes src (toLowerCase c)) knownCities of
                      Some c \<Rightarrow> Str c
                    | None \<Rightarrow> Str [])))"

text \<open>The callback of \<open>restaurants.filter\<close> in \<open>filteredRestaurants\<close>.\<close>

definition passesFilters :: "string \<Rightarrow> Filters \<Rightarrow> string \<Rightarrow> Restaurant \<Rightarrow> bool" where
  "passesFilters searchQuery selectedFilters selectedCity restaurant =
     (let matchesCity = (getCity restaurant = canonicalCity (Some selectedCity));
          matchesSearch =
            (str_includes (toLowerCase (name restaurant)) (toLowerCase searchQuery) \<or>
             str_includes (toLowerCase (cuisine restaurant)) (toLowerCase searchQuery) \<or>
             str_includes (toLowerCase (neighborhood restaurant)) (toLowerCase searchQuery));
          dbDietSet = map canonicalDiet (dietaryTags restaurant);
          selectedDiet = map canonicalDiet (diet selectedFilters);
          matchesDiet = (selectedDiet = [] \<or> list_ex (\<lambda>d. d \<in> set dbDietSet) selectedDiet);
          matchesOils =
            (oils selectedFilters = [] \<or>
             list_ex (\<lambda>oil. oil \<in> set (oilsUsed restaurant)) (oils selectedFilters));
          matchesNeighborhood =
            (neighborhoodF selectedFilters = [] \<or>
             neighborhood restaurant = neighborhoodF selectedFilters);
          matchesPrice =
            (priceRangeF selectedFilters = [] \<or> priceRange restaurant = priceRangeF selectedFilters);
          matchesVerified = (\<not> verifiedF selectedFilters \<or> verified restaurant)
      in matchesCity \<and> matchesSearch \<and> matchesDiet \<and> matchesOils \<and> matchesNeighborhood \<and>
         matchesPrice \<and> matchesVerified)"

datatype SortBy = ByRating | ByName | ByRecent | ByPrice | ByVerified | ByUpdated

text \<open>
  The comparator of \<open>filtered.sort\<close>. A difference with \<open>NaN\<close> in it is \<open>NaN\<close>, which
  \<open>sort\<close> reads as 0.
\<close>

definition compareBy :: "runtime \<Rightarrow> SortBy \<Rightarrow> Restaurant \<Rightarrow> Restaurant \<Rightarrow> real" where
  "compareBy rt sortBy a b =
     (case sortBy of
        ByRating \<Rightarrow> rating b - rating a
      | ByPrice \<Rightarrow> real (length (priceRange a)) - real (length (priceRange b))
      | ByVerified \<Rightarrow> (if verified b then 1 else 0) - (if verified a then 1 else 0)
      | ByUpdated \<Rightarrow>
          (case (getTime rt (lastUpdated b), getTime rt (lastUpdated a)) of
             (Some tb, Some ta) \<Rightarrow> real_of_int (tb - ta)
           | _ \<Rightarrow> 0)
      | _ \<Rightarrow> 0)"

text \<open>
  \<open>Array.prototype.sort\<close> is stable: an element stays in front of a later one unless the
  comparator puts it behind.
\<close>

fun insertSorted :: "('a \<Rightarrow> 'a \<Rightarrow> real) \<Rightarrow> 'a \<Rightarrow> 'a list \<Rightarrow> 'a list" where
  "insertSorted cmp x [] = [x]"
| "insertSorted cmp x (y # ys) = (if cmp x y \<le> 0 then x # y # ys else y # insertSorted cmp x ys)"

definition stableSort :: "('a \<Rightarrow> 'a \<Rightarrow> real) \<Rightarrow> 'a list \<Rightarrow> 'a list" where
  "stableSort cmp xs = foldr (insertSorted cmp) xs []"

definition filteredRestaurants ::
  "runtime \<Rightarrow> Restaurant list \<Rightarrow> string \<Rightarrow> Filters \<Rightarrow> string \<Rightarrow> SortBy \<Rightarrow> Restaurant list" where
  "filteredRestaurants rt restaurants searchQuery selectedFilters selectedCity sortBy =
     stableSort (compareBy rt sortBy)
       (filter (passesFilters searchQuery selectedFilters selectedCity) restaurants)"


section \<open>The view state\<close>

datatype View = Home | Results | Admin | About | Contact | Suggest

definition viewOfName :: "string \<Rightarrow> View option" where
  "viewOfName s =
     map_of [(''home'', Home), (''results'', Results), (''about'', About),
             (''contact'', Contact), (''suggest'', Suggest), (''admin'', Admin)] s"

text \<open>What \<open>localStorage.getItem\<close> does: it throws, returns \<open>null\<close>, or returns a string.\<close>

datatype stored_item = StorageThrows | NoItem | Item string

definition getInitialView :: "stored_item \<Rightarrow> View" where
  "getInitialView saved =
     (case saved of
        Item s \<Rightarrow> (case viewOfName s of Some v \<Rightarrow> v | None \<Rightarrow> Home)
      | _ \<Rightarrow> Home)"

text \<open>\<open>hash.replace(/^#\/?/, '')\<close>: a leading \<open>#\<close> and a \<open>/\<close> right after it are removed.\<close>

fun stripHash :: "string \<Rightarrow> string" where
  "stripHash (c # d # rest) =
     (if c = CHR ''#'' then (if d = CHR ''/'' then rest else d # rest) else c # d # rest)"
| "stripHash [c] = (if c = CHR ''#'' then [] else [c])"
| "stripHash [] = []"

definition viewFromHash :: "string \<Rightarrow> View" where
  "viewFromHash hash =
     (let h = toLowerCase (stripHash hash)
      in if h = ''home'' then Home
         else if h = ''results'' then Results
         else if h = ''about'' then About
         else if h = ''contact'' then Contact
         else if h = ''suggest'' then Suggest
         else if h = ''admin'' then Admin
         else Home)"

fun viewName :: "View \<Rightarrow> string" where
  "viewName Home = ''home''"
| "viewName Results = ''results''"
| "viewName Admin = ''admin''"
| "viewName About = ''about''"
| "viewName Contact = ''contact''"
| "viewName Suggest = ''suggest''"

text \<open>
  What decides the view while the component mounts: the view of the last render, the calls
  of \<open>setCurrentView\<close> not yet applied (oldest first), the fragment
  (\<open>window.location.hash\<close>), the number of \<open>hashchange\<close> events the browser has queued
  and not yet delivered, and the stored item.
\<close>

record MountState =
  currentView :: View
  queuedViews :: "View list"
  locationHash :: string
  queuedHashchanges :: nat
  savedView :: stored_item

text \<open>
  The three effects, in the order the component declares them. Each sees the view of the
  render it belongs to. The first also registers \<open>onHashChange\<close>. An assignment to
  \<open>window.location.hash\<close> that changes the fragment queues one \<open>hashchange\<close> event. A
  storage that throws is left as it is (\<open>try ... catch {}\<close>).
\<close>

definition mountEffect :: "MountState \<Rightarrow> MountState" where
  "mountEffect st =
     (let initial = viewFromHash (locationHash st)
      in if initial \<noteq> currentView st then st\<lparr> queuedViews := queuedViews st @ [initial] \<rparr>
         else st)"

definition hashSyncEffect :: "MountState \<Rightarrow> MountState" where
  "hashSyncEffect st =
     (let target = ''#/'' @ viewName (currentView st)
      in if locationHash st \<noteq> target
         then st\<lparr> locationHash := target, queuedHashchanges := queuedHashchanges st + 1 \<rparr>
         else st)"

definition persistEffect :: "MountState \<Rightarrow> MountState" where
  "persistEffect st =
     st\<lparr> savedView :=
           (case savedView st of
              StorageThrows \<Rightarrow> StorageThrows
            | _ \<Rightarrow> Item (viewName (currentView st))) \<rparr>"

text \<open>
  The component after its first render and the effects of that render: the view is what
  \<open>getInitialView\<close> returned.
\<close>

definition mounted :: "stored_item \<Rightarrow> string \<Rightarrow> MountState" where
  "mounted saved hash =
     persistEffect
       (hashSyncEffect
          (mountEffect
             \<lparr> currentView = getInitialView saved, queuedViews = [], locationHash = hash,
               queuedHashchanges = 0, savedView = saved \<rparr>))"

text \<open>
  Two things are then left for the runtime to do, in an order the component does not fix.
  Delivering a \<open>hashchange\<close> event runs \<open>onHashChange\<close>, which reads the fragment as it is
  at that moment. Rendering again applies the queued calls of \<open>setCurrentView\<close> in order,
  each replacing the view; when the view that results is the one already rendered nothing
  else happens, otherwise the two effects that depend on \<open>currentView\<close> run again.
\<close>

definition onHashChange :: "MountState \<Rightarrow> MountState" where
  "onHashChange st =
     st\<lparr> queuedViews := queuedViews st @ [viewFromHash (locationHash st)],
         queuedHashchanges := queuedHashchanges st - 1 \<rparr>"

definition rerender :: "MountState \<Rightarrow> MountState" where
  "rerender st =
     (let next = foldl (\<lambda>v u. u) (currentView st) (queuedViews st)
      in if next = currentView st then st\<lparr> queuedViews := [] \<rparr>
         else persistEffect (hashSyncEffect (st\<lparr> currentView := next, queuedViews := [] \<rparr>)))"

datatype task = Rerender | Hashchange

text \<open>A task can run only when it is pending; \<open>None\<close> says that it was not.\<close>

fun perform :: "task \<Rightarrow> MountState \<Rightarrow> MountState option" where
  "perform Rerender st = (if queuedViews st = [] then None else Some (rerender st))"
| "perform Hashchange st = (if queuedHashchanges st = 0 then None else Some (onHashChange st))"

fun runTasks :: "task list \<Rightarrow> MountState \<Rightarrow> MountState option" where
  "runTasks [] st = Some st"
| "runTasks (t # ts) st = (case perform t st of None \<Rightarrow> None | Some st' \<Rightarrow> runTasks ts st')"

definition settled :: "MountState \<Rightarrow> bool" where
  "settled st = (queuedViews st = [] \<and> queuedHashchanges st = 0)"


section \<open>The application state, fetching and moderation\<close>

datatype ToastType = Success | Error | Info

text \<open>
  A notice, without its identifier (drawn at random) and without the timer that removes it
  later.
\<close>

record ToastNotice =
  message :: string
  toastType :: ToastType

record AppState =
  restaurants :: "Restaurant list"
  page :: nat
  hasMore :: bool
  loading :: bool
  loadError :: "string option"
  pendingSubmissions :: "PendingSubmission list"
  selectedCity :: string
  cityOptions :: "CityRow list"
  toasts :: "ToastNotice list"

definition pageSize :: nat where
  "pageSize = 20"

text \<open>
  The answers of the backend. An error is given by its message. The restaurants query is a
  function of the city filter and of the two bounds passed to \<open>range\<close>.
\<close>

datatype CityFilter = LocationIs int | CityNameIs js_text

record RestaurantsResponse =
  restaurantsData :: "RestaurantRow list option"
  restaurantsError :: "string option"
  countR :: "nat option"

record PendingResponse =
  pendingData :: "PendingRow list option"
  pendingError :: "string option"

definition mapPendingRow :: "runtime \<Rightarrow> PendingRow \<Rightarrow> PendingSubmission" where
  "mapPendingRow rt row =
     \<lparr> idP = idPRow row,
       nameP = orEmpty (namePRow row),
       addressP = orEmpty (addressPRow row),
       neighborhoodP = orEmpty (neighborhoodPRow row),
       cityP = orEmpty (cityPRow row),
       websiteP = orEmpty (websitePRow row),
       notesP = orEmpty (notesPRow row),
       submittedDate = orDefault (today rt) (submitted_date row),
       status = orDefault Pending (statusPRow row) \<rparr>"

definition cityFilter :: "AppState \<Rightarrow> CityFilter" where
  "cityFilter st =
     (let targetCity = canonicalCity (Some (selectedCity st))
      in case find (\<lambda>c. canonicalCity (Some (nameC c)) = targetCity) (cityOptions st) of
           Some match \<Rightarrow> LocationIs (idC match)
         | None \<Rightarrow> CityNameIs targetCity)"

text \<open>\<open>fetchData\<close> up to its first \<open>await\<close>.\<close>

definition fetchDataBegin :: "AppState \<Rightarrow> AppState" where
  "fetchDataBegin st = st\<lparr> loading := True, loadError := None \<rparr>"

text \<open>What \<open>fetchData\<close> does with the answer to the restaurants query.\<close>

definition storeRestaurants ::
  "runtime \<Rightarrow> bool \<Rightarrow> nat \<Rightarrow> RestaurantsResponse \<Rightarrow> AppState \<Rightarrow> AppState" where
  "storeRestaurants rt reset to response st =
     (case restaurantsError response of
        Some msg \<Rightarrow> st\<lparr> loadError := Some (''Failed to load restaurants: '' @ msg) \<rparr>
      | None \<Rightarrow>
          (case restaurantsData response of
             None \<Rightarrow> st
           | Some rows \<Rightarrow>
               st\<lparr> restaurants :=
                     (if reset then map (mapRestaurantRow rt) rows
                      else restaurants st @ map (mapRestaurantRow rt) rows),
                   hasMore :=
                     (case countR response of
                        Some n \<Rightarrow> to + 1 < n
                      | None \<Rightarrow> length rows = pageSize),
                   page := (if reset then 1 else page st + 1) \<rparr>))"

text \<open>What it does with the answer to the pending query.\<close>

definition storePending :: "runtime \<Rightarrow> PendingResponse \<Rightarrow> AppState \<Rightarrow> AppState" where
  "storePending rt pending st =
     (case pendingError pending of
        Some msg \<Rightarrow>
          st\<lparr> loadError :=
                (case loadError st of
                   Some prev \<Rightarrow> Some prev
                 | None \<Rightarrow> Some (''Failed to load pending submissions: '' @ msg)) \<rparr>
      | None \<Rightarrow>
          (case pendingData pending of
             None \<Rightarrow> st
           | Some rows \<Rightarrow> st\<lparr> pendingSubmissions := map (mapPendingRow rt) rows \<rparr>))"

definition fetchData ::
  "runtime \<Rightarrow> (CityFilter \<Rightarrow> nat \<Rightarrow> nat \<Rightarrow> RestaurantsResponse) \<Rightarrow> PendingResponse \<Rightarrow> bool \<Rightarrow>
     AppState \<Rightarrow> AppState" where
  "fetchData rt query pending reset st0 =
     (let st = fetchDataBegin st0;
          nextPage = (if reset then 0 else page st0);
          from = nextPage * pageSize;
          to = from + pageSize - 1;
          response = query (cityFilter st0) from to;
          st1 = storeRestaurants rt reset to response st;
          st2 = storePending rt pending st1
      in st2\<lparr> loading := False \<rparr>)"

record RestaurantInsert =
  nameIns :: string
  addressIns :: string
  neighborhoodIns :: string
  cityIns :: string
  oils_usedIns :: "string list"
  oils_avoidedIns :: "string list"
  dietary_tagsIns :: "string list"
  verifiedIns :: bool
  verification_dateIns :: "string option"
  verification_methodIns :: "string option"
  websiteIns :: string
  instagramIns :: string
  price_rangeIns :: string
  order_typeIns :: string
  sourcing_notesIns :: string
  image_urlIns :: string
  ratingIns :: real
  review_countIns :: real
  hoursIns :: string
  cuisineIns :: string
  last_updatedIns :: string
  phoneIns :: string
  emailIns :: string

definition toRestaurantInsertFromPending :: "runtime \<Rightarrow> PendingSubmission \<Rightarrow> RestaurantInsert" where
  "toRestaurantInsertFromPending rt submission =
     \<lparr> nameIns = nameP submission,
       addressIns = addressP submission,
       neighborhoodIns = (if neighborhoodP submission \<noteq> [] then neighborhoodP submission else ''TBD''),
       cityIns = cityP submission,
       oils_usedIns = [''To Be Verified''],
       oils_avoidedIns = [''To Be Verified''],
       dietary_tagsIns = [''Pending Review''],
       verifiedIns = False,
       verification_dateIns = None,
       verification_methodIns = None,
       websiteIns = websiteP submission,
       instagramIns = [],
       price_rangeIns = ''$$'',
       order_typeIns = ''Dine-in'',
       sourcing_notesIns = notesP submission,
       image_urlIns = ''https://images.unsplash.com/photo-1590846406792-0adc7f938f1d?w=400&h=300&fit=crop'',
       ratingIns = 0,
       review_countIns = 0,
       hoursIns = ''TBD'',
       cuisineIns = ''TBD'',
       last_updatedIns = today rt,
       phoneIns = [],
       emailIns = [] \<rparr>"

record InsertResponse =
  inserted :: "RestaurantRow option"
  insertErr :: "string option"

definition showToastMessage :: "string \<Rightarrow> ToastType \<Rightarrow> AppState \<Rightarrow> AppState" where
  "showToastMessage msg type st = st\<lparr> toasts := toasts st @ [\<lparr> message = msg, toastType = type \<rparr>] \<rparr>"

text \<open>
  \<open>approveSubmission\<close>, given what the backend answers to the insert of a payload and to
  the deletion of a pending row (\<open>None\<close>: no error). Its last statement starts
  \<open>fetchData(true)\<close> without waiting for it: the state returned is the one at the first
  \<open>await\<close> of that call, and the rest of the call is a \<open>fetchData\<close> of its own.
\<close>

definition approveSubmission ::
  "runtime \<Rightarrow> (RestaurantInsert \<Rightarrow> InsertResponse) \<Rightarrow> (int \<Rightarrow> string option) \<Rightarrow> int \<Rightarrow>
     AppState \<Rightarrow> AppState" where
  "approveSubmission rt insertRow deletePending submissionId st =
     (case find (\<lambda>s. idP s = submissionId) (pendingSubmissions st) of
        None \<Rightarrow> st
      | Some submission \<Rightarrow>
          (let newRestaurantInsert = toRestaurantInsertFromPending rt submission;
               response = insertRow newRestaurantInsert
           in case insertErr response of
                Some msg \<Rightarrow> showToastMessage (''Approve failed: '' @ msg) Error st
              | None \<Rightarrow>
                  (let st1 =
                         (case deletePending submissionId of
                            Some msg \<Rightarrow>
                              showToastMessage
                                (''Warning: added to restaurants but failed to remove pending: '' @ msg)
                                Error st
                          | None \<Rightarrow> st);
                       st2 =
                         (case inserted response of
                            Some row \<Rightarrow> st1\<lparr> restaurants := restaurants st1 @ [mapRestaurantRow rt row] \<rparr>
                          | None \<Rightarrow> st1);
                       st3 = st2\<lparr> pendingSubmissions :=
                                    filter (\<lambda>s. idP s \<noteq> submissionId) (pendingSubmissions st2) \<rparr>;
                       st4 = showToastMessage ''Submission approved and added to listings!'' Success st3
                   in fetchDataBegin st4)))"

section \<open>A runtime for the examples\<close>

text \<open>
  The theorems below hold for every runtime. The examples need one: a reader of JSON texts
  (RFC 8259) over the alphabet of the model, with numbers read exactly, and the time of a
  calendar date written \<open>YYYY-MM-DD\<close>, the form the program itself writes.
\<close>

datatype token = TLBrace | TRBrace | TLBracket | TRBracket | TColon | TComma | TValue json

datatype lex_state =
    LDefault
  | LString string
  | LEscape string
  | LHex string "nat list"
  | LWord string

definition isDigit :: "char \<Rightarrow> bool" where
  "isDigit c = (48 \<le> (of_char c :: nat) \<and> (of_char c :: nat) \<le> 57)"

definition digitValue :: "char \<Rightarrow> nat" where
  "digitValue c = of_char c - 48"

definition natOfDigits :: "string \<Rightarrow> nat" where
  "natOfDigits ds = foldl (\<lambda>n c. 10 * n + digitValue c) 0 ds"

definition isJsonSpace :: "char \<Rightarrow> bool" where
  "isJsonSpace c = (c = CHR '' '' \<or> c = CHR 0x09 \<or> c = CHR 0x0A \<or> c = CHR 0x0D)"

definition punctuation :: "char \<Rightarrow> token option" where
  "punctuation c =
     map_of [(CHR ''{'', TLBrace), (CHR ''}'', TRBrace), (CHR ''['', TLBracket),
             (CHR '']'', TRBracket), (CHR '':'', TColon), (CHR '','', TComma)] c"

definition escaped :: "char \<Rightarrow> char option" where
  "escaped c =
     map_of [(CHR 0x22, CHR 0x22), (CHR 0x5C, CHR 0x5C), (CHR ''/'', CHR ''/''),
             (CHR ''b'', CHR 0x08), (CHR ''f'', CHR 0x0C), (CHR ''n'', CHR 0x0A),
             (CHR ''r'', CHR 0x0D), (CHR ''t'', CHR 0x09)] c"

definition hexValue :: "char \<Rightarrow> nat option" where
  "hexValue c =
     (let n = (of_char c :: nat)
      in if 48 \<le> n \<and> n \<le> 57 then Some (n - 48)
         else if 65 \<le> n \<and> n \<le> 70 then Some (n - 55)
         else if 97 \<le> n \<and> n \<le> 102 then Some (n - 87)
         else None)"

text \<open>The character of a code below 256, bit by bit.\<close>

definition charOfCode :: "nat \<Rightarrow> char" where
  "charOfCode n =
     Char (odd n) (odd (n div 2)) (odd (n div 4)) (odd (n div 8))
          (odd (n div 16)) (odd (n div 32)) (odd (n div 64)) (odd (n div 128))"

definition readNumber :: "string \<Rightarrow> real option" where
  "readNumber s =
     (let negative = (s \<noteq> [] \<and> hd s = CHR ''-'');
          s1 = (if negative then tl s else s);
          whole = takeWhile isDigit s1;
          s2 = dropWhile isDigit s1;
          hasFraction = (s2 \<noteq> [] \<and> hd s2 = CHR ''.'');
          fraction = (if hasFraction then takeWhile isDigit (tl s2) else []);
          s3 = (if hasFraction then dropWhile isDigit (tl s2) else s2);
          hasExponent = (s3 \<noteq> [] \<and> (hd s3 = CHR ''e'' \<or> hd s3 = CHR ''E''));
          s4 = (if hasExponent then tl s3 else s3);
          minus = (hasExponent \<and> s4 \<noteq> [] \<and> hd s4 = CHR ''-'');
          s5 = (if hasExponent \<and> s4 \<noteq> [] \<and> (hd s4 = CHR ''-'' \<or> hd s4 = CHR ''+'') then tl s4 else s4);
          exponent = (if hasExponent then takeWhile isDigit s5 else []);
          s6 = (if hasExponent then dropWhile isDigit s5 else s5);
          mantissa = real (natOfDigits whole) + real (natOfDigits fraction) / 10 ^ length fraction;
          scaled = (if minus then mantissa / 10 ^ natOfDigits exponent
                    else mantissa * 10 ^ natOfDigits exponent)
      in if whole = [] \<or> (length whole > 1 \<and> hd whole = CHR ''0'') \<or> (hasFraction \<and> fraction = [])
            \<or> (hasExponent \<and> exponent = []) \<or> s6 \<noteq> []
         then None
         else Some (if negative then - scaled else scaled))"

definition wordToken :: "string \<Rightarrow> token option" where
  "wordToken w =
     (if w = ''true'' then Some (TValue (JBool True))
      else if w = ''false'' then Some (TValue (JBool False))
      else if w = ''null'' then Some (TValue JNull)
      else map_option (\<lambda>r. TValue (JNum r)) (readNumber w))"

definition lexDefault :: "char \<Rightarrow> lex_state \<times> token list" where
  "lexDefault c =
     (if isJsonSpace c then (LDefault, [])
      else if c = CHR 0x22 then (LString [], [])
      else case punctuation c of
             Some t \<Rightarrow> (LDefault, [t])
           | None \<Rightarrow> (LWord [c], []))"

text \<open>One character: the next state and the tokens completed; \<open>None\<close> rejects the text.
  The strings of the states are kept reversed.\<close>

fun lexStep :: "lex_state \<Rightarrow> char \<Rightarrow> (lex_state \<times> token list) option" where
  "lexStep LDefault c = Some (lexDefault c)"
| "lexStep (LString acc) c =
     (if c = CHR 0x22 then Some (LDefault, [TValue (JStr (rev acc))])
      else if c = CHR 0x5C then Some (LEscape acc, [])
      else if (of_char c :: nat) < 32 then None
      else Some (LString (c # acc), []))"
| "lexStep (LEscape acc) c =
     (case escaped c of
        Some d \<Rightarrow> Some (LString (d # acc), [])
      | None \<Rightarrow> (if c = CHR ''u'' then Some (LHex acc [], []) else None))"
| "lexStep (LHex acc hs) c =
     (case hexValue c of
        None \<Rightarrow> None
      | Some v \<Rightarrow>
          (if length hs < 3 then Some (LHex acc (hs @ [v]), [])
           else (let n = foldl (\<lambda>a h. 16 * a + h) 0 (hs @ [v])
                 in if n < 256 then Some (LString (charOfCode n # acc), []) else None)))"
| "lexStep (LWord w) c =
     (if isJsonSpace c \<or> c = CHR 0x22 \<or> punctuation c \<noteq> None
      then (case wordToken (rev w) of
              None \<Rightarrow> None
            | Some t \<Rightarrow> Some (fst (lexDefault c), t # snd (lexDefault c)))
      else Some (LWord (c # w), []))"

fun lexFrom :: "lex_state \<Rightarrow> string \<Rightarrow> token list option" where
  "lexFrom st [] =
     (case st of
        LDefault \<Rightarrow> Some []
      | LWord w \<Rightarrow> map_option (\<lambda>t. [t]) (wordToken (rev w))
      | _ \<Rightarrow> None)"
| "lexFrom st (c # cs) =
     (case lexStep st c of
        None \<Rightarrow> None
      | Some (st', ts) \<Rightarrow> map_option (\<lambda>rest. ts @ rest) (lexFrom st' cs))"

datatype frame = InArray "json list" | InObject "(string \<times> json) list" "string option"

datatype expect = ExpValue | ExpValueOrClose | ExpKeyOrClose | ExpKey | ExpColon | ExpCommaOrClose | ExpEnd json

text \<open>A completed value goes to the frame on top of the stack, or is the result.\<close>

fun deliver :: "json \<Rightarrow> frame list \<Rightarrow> (frame list \<times> expect) option" where
  "deliver v [] = Some ([], ExpEnd v)"
| "deliver v (InArray xs # stack) = Some (InArray (v # xs) # stack, ExpCommaOrClose)"
| "deliver v (InObject kvs (Some k) # stack) = Some (InObject ((k, v) # kvs) None # stack, ExpCommaOrClose)"
| "deliver v (InObject kvs None # stack) = None"

definition closeArray :: "frame list \<Rightarrow> (frame list \<times> expect) option" where
  "closeArray stack =
     (case stack of InArray xs # rest \<Rightarrow> deliver (JArr (rev xs)) rest | _ \<Rightarrow> None)"

definition closeObject :: "frame list \<Rightarrow> (frame list \<times> expect) option" where
  "closeObject stack =
     (case stack of InObject kvs None # rest \<Rightarrow> deliver (JObj (rev kvs)) rest | _ \<Rightarrow> None)"

definition setKey :: "frame list \<Rightarrow> string \<Rightarrow> (frame list \<times> expect) option" where
  "setKey stack k =
     (case stack of
        InObject kvs None # rest \<Rightarrow> Some (InObject kvs (Some k) # rest, ExpColon)
      | _ \<Rightarrow> None)"

definition openValue :: "frame list \<Rightarrow> token \<Rightarrow> bool \<Rightarrow> (frame list \<times> expect) option" where
  "openValue stack t closable =
     (case t of
        TValue v \<Rightarrow> deliver v stack
      | TLBracket \<Rightarrow> Some (InArray [] # stack, ExpValueOrClose)
      | TLBrace \<Rightarrow> Some (InObject [] None # stack, ExpKeyOrClose)
      | TRBracket \<Rightarrow> (if closable then closeArray stack else None)
      | _ \<Rightarrow> None)"

definition parseStep :: "frame list \<times> expect \<Rightarrow> token \<Rightarrow> (frame list \<times> expect) option" where
  "parseStep st t =
     (let stack = fst st
      in case snd st of
           ExpValue \<Rightarrow> openValue stack t False
         | ExpValueOrClose \<Rightarrow> openValue stack t True
         | ExpKeyOrClose \<Rightarrow>
             (case t of TValue (JStr k) \<Rightarrow> setKey stack k | TRBrace \<Rightarrow> closeObject stack | _ \<Rightarrow> None)
         | ExpKey \<Rightarrow> (case t of TValue (JStr k) \<Rightarrow> setKey stack k | _ \<Rightarrow> None)
         | ExpColon \<Rightarrow> (case t of TColon \<Rightarrow> Some (stack, ExpValue) | _ \<Rightarrow> None)
         | ExpCommaOrClose \<Rightarrow>
             (case t of
                TComma \<Rightarrow>
                  (case stack of
                     InArray xs # rest \<Rightarrow> Some (stack, ExpValue)
                   | InObject kvs None # rest \<Rightarrow> Some (stack, ExpKey)
                   | _ \<Rightarrow> None)
              | TRBracket \<Rightarrow> closeArray stack
              | TRBrace \<Rightarrow> closeObject stack
              | _ \<Rightarrow> None)
         | ExpEnd v \<Rightarrow> None)"

fun parseTokens :: "frame list \<times> expect \<Rightarrow> token list \<Rightarrow> json option" where
  "parseTokens st [] = (case snd st of ExpEnd v \<Rightarrow> Some v | _ \<Rightarrow> None)"
| "parseTokens st (t # ts) =
     (case parseStep st t of None \<Rightarrow> None | Some st' \<Rightarrow> parseTokens st' ts)"

definition readJson :: "string \<Rightarrow> json option" where
  "readJson s =
     (case lexFrom LDefault s of
        None \<Rightarrow> None
      | Some ts \<Rightarrow> parseTokens ([], ExpValue) ts)"

definition daysFromCivil :: "int \<Rightarrow> int \<Rightarrow> int \<Rightarrow> int" where
  "daysFromCivil y m d =
     (let y' = (if m \<le> 2 then y - 1 else y);
          era = y' div 400;
          yoe = y' - era * 400;
          doy = (153 * (if m > 2 then m - 3 else m + 9) + 2) div 5 + d - 1;
          doe = yoe * 365 + yoe div 4 - yoe div 100 + doy
      in era * 146097 + doe - 719468)"

definition daysInMonth :: "int \<Rightarrow> int \<Rightarrow> int" where
  "daysInMonth y m =
     (if m = 2 then (if y mod 4 = 0 \<and> (y mod 100 \<noteq> 0 \<or> y mod 400 = 0) then 29 else 28)
      else if m = 4 \<or> m = 6 \<or> m = 9 \<or> m = 11 then 30
      else 31)"

definition isoDateTime :: "string \<Rightarrow> int option" where
  "isoDateTime s =
     (let y = int (natOfDigits (take 4 s));
          m = int (natOfDigits (take 2 (drop 5 s)));
          d = int (natOfDigits (take 2 (drop 8 s)))
      in if length s = 10 \<and> list_all isDigit (take 4 s @ take 2 (drop 5 s) @ take 2 (drop 8 s))
            \<and> s ! 4 = CHR ''-'' \<and> s ! 7 = CHR ''-''
            \<and> 1 \<le> m \<and> m \<le> 12 \<and> 1 \<le> d \<and> d \<le> daysInMonth y m
         then Some (daysFromCivil y m d * 86400000)
         else None)"

definition exampleRuntime :: runtime where
  "exampleRuntime = \<lparr> JSON_parse = readJson, today = ''2025-06-01'', getTime = isoDateTime \<rparr>"

section \<open>Values for the examples\<close>

text \<open>A row with every nullable column \<open>null\<close>, and a restaurant with every field empty.\<close>

definition blankRow :: RestaurantRow where
  "blankRow =
     \<lparr> idRow = 0, nameRow = None, addressRow = None, neighborhoodRow = None, cityRow = None,
       location = LocNull, oils_used = RawNull, oils_avoided = RawNull,
       restaurant_dietary_tags = None, city_rel = None, verifiedRow = None,
       verification_date = None, verification_method = None, websiteRow = None,
       instagramRow = None, menu_link = None, price_range = None, order_type = None,
       sourcing_notes = None, image_url = None, image_urls = JNull, ratingRow = None,
       review_count = None, hoursRow = None, cuisineRow = None, last_updated = None,
       phoneRow = None, emailRow = None, latitudeRow = None, longitudeRow = None,
       outdoor_seating = None, deliveryRow = None, family_friendly = None, celiac_safe = None,
       recommended_dishes = JNull, social_links = JNull \<rparr>"

definition blankRestaurant :: Restaurant where
  "blankRestaurant =
     \<lparr> idR = 0, name = [], address = [], neighborhood = [], city = [], oilsUsed = [],
       oilsAvoided = [], dietaryTags = [], verified = False, verificationDate = None,
       verificationMethod = None, website = [], instagram = [], menuLink = [],
       priceRange = ''$$'', orderType = ''Dine-in'', sourcingNotes = [],
       imageUrl = JStr fallbackImage, imageUrls = [], rating = 0, reviewCount = 0, hours = [],
       cuisine = [], lastUpdated = ''2025-06-01'', phone = [], email = [], latitude = None,
       longitude = None, outdoorSeating = None, delivery = None, familyFriendly = None,
       celiacSafe = None, recommendedDishes = None, socialLinks = None \<rparr>"

definition noFilters :: Filters where
  "noFilters = \<lparr> diet = [], oils = [], neighborhoodF = [], priceRangeF = [], verifiedF = False \<rparr>"

text \<open>The three restaurants of the filtering example, and its diet filter.\<close>

definition restaurantA :: Restaurant where
  "restaurantA = blankRestaurant\<lparr> idR := 1, name := ''A'', city := ''NYC'', dietaryTags := [''Keto''] \<rparr>"

definition restaurantB :: Restaurant where
  "restaurantB = blankRestaurant\<lparr> idR := 2, name := ''B'', city := ''NYC'', dietaryTags := [''Vegan''] \<rparr>"

definition restaurantC :: Restaurant where
  "restaurantC = blankRestaurant\<lparr> idR := 3, name := ''C'', city := ''LA'', dietaryTags := [''Keto''] \<rparr>"

definition ketoFilter :: Filters where
  "ketoFilter = noFilters\<lparr> diet := [''Keto''] \<rparr>"

text \<open>
  A backend for the examples. The restaurants query answers from a table: the rows the city
  filter selects, the slice that \<open>range\<close> asks for, and the exact count. An insert answers
  with the row stored: the columns of the payload under a new identifier, the joined
  relations not selected.
\<close>

definition matchesCityFilter :: "CityFilter \<Rightarrow> RestaurantRow \<Rightarrow> bool" where
  "matchesCityFilter flt row =
     (case flt of
        LocationIs i \<Rightarrow> location row = LocNumber i
      | CityNameIs (Str c) \<Rightarrow> city_rel row = Some (CityRel (Some c))
      | CityNameIs (Inherited k) \<Rightarrow> False)"

definition tableQuery :: "RestaurantRow list \<Rightarrow> CityFilter \<Rightarrow> nat \<Rightarrow> nat \<Rightarrow> RestaurantsResponse" where
  "tableQuery tbl flt from to =
     \<lparr> restaurantsData = Some (take (to + 1 - from) (drop from (filter (matchesCityFilter flt) tbl))),
       restaurantsError = None,
       countR = Some (length (filter (matchesCityFilter flt) tbl)) \<rparr>"

definition failingQuery :: "string \<Rightarrow> CityFilter \<Rightarrow> nat \<Rightarrow> nat \<Rightarrow> RestaurantsResponse" where
  "failingQuery msg flt from to =
     \<lparr> restaurantsData = None, restaurantsError = Some msg, countR = None \<rparr>"

definition noPending :: PendingResponse where
  "noPending = \<lparr> pendingData = Some [], pendingError = None \<rparr>"

definition storedRow :: "int \<Rightarrow> RestaurantInsert \<Rightarrow> RestaurantRow" where
  "storedRow newId p =
     blankRow
       \<lparr> idRow := newId, nameRow := Some (nameIns p), addressRow := Some (addressIns p),
         neighborhoodRow := Some (neighborhoodIns p), cityRow := Some (cityIns p),
         oils_used := RawArray (map Some (oils_usedIns p)),
         oils_avoided := RawArray (map Some (oils_avoidedIns p)),
         verifiedRow := Some (verifiedIns p), verification_date := verification_dateIns p,
         verification_method := verification_methodIns p, websiteRow := Some (websiteIns p),
         instagramRow := Some (instagramIns p), price_range := Some (price_rangeIns p),
         order_type := Some (order_typeIns p), sourcing_notes := Some (sourcing_notesIns p),
         image_url := Some (image_urlIns p), ratingRow := Some (ratingIns p),
         review_count := Some (review_countIns p), hoursRow := Some (hoursIns p),
         cuisineRow := Some (cuisineIns p), last_updated := Some (last_updatedIns p),
         phoneRow := Some (phoneIns p), emailRow := Some (emailIns p) \<rparr>"

definition insertStores :: "int \<Rightarrow> RestaurantInsert \<Rightarrow> InsertResponse" where
  "insertStores newId p = \<lparr> inserted = Some (storedRow newId p), insertErr = None \<rparr>"

definition rowIn :: "int \<Rightarrow> string \<Rightarrow> RestaurantRow" where
  "rowIn i cityName = blankRow\<lparr> idRow := i, city_rel := Some (CityRel (Some cityName)) \<rparr>"

definition exampleTable :: "RestaurantRow list" where
  "exampleTable = [rowIn 1 ''New York'', rowIn 2 ''Los Angeles'', rowIn 3 ''New York'']"

definition examplePending :: PendingSubmission where
  "examplePending =
     \<lparr> idP = 7, nameP = ''Green Fork'', addressP = ''12 Elm St'', neighborhoodP = [],
       cityP = ''Austin'', websiteP = ''https://greenfork.example'', notesP = ''tallow fries'',
       submittedDate = ''2025-05-30'', status = Pending \<rparr>"

definition exampleState :: AppState where
  "exampleState =
     \<lparr> restaurants = [restaurantA], page = 1, hasMore = True, loading = False, loadError = None,
       pendingSubmissions = [examplePending], selectedCity = ''NYC'', cityOptions = [],
       toasts = [] \<rparr>"

definition deleteFails :: "string \<Rightarrow> int \<Rightarrow> string option" where
  "deleteFails msg i = Some msg"



section \<open>Properties of the string functions\<close>

lemma dropWhile_keeps_front:
  "dropWhile P (rev (dropWhile P (rev (dropWhile P s)))) = rev (dropWhile P (rev (dropWhile P s)))"
proof -
  define t where "t = dropWhile P s"
  define u where "u = rev (dropWhile P (rev t))"
  have "t = rev (takeWhile P (rev t) @ dropWhile P (rev t))"
    by (simp only: takeWhile_dropWhile_id rev_rev_ident)
  then have split: "t = u @ rev (takeWhile P (rev t))"
    by (simp only: rev_append u_def)
  have front: "t = [] \<or> \<not> P (hd t)"
    unfolding t_def by (metis hd_dropWhile)
  have "u = [] \<or> \<not> P (hd u)"
  proof (cases "u = []")
    case True
    then show ?thesis by simp
  next
    case False
    then have "hd t = hd u" and "t \<noteq> []"
      using split by (metis hd_append2, metis append_is_Nil_conv)
    then show ?thesis using front by simp
  qed
  then have "dropWhile P u = u"
    by (simp add: dropWhile_eq_self_iff)
  then show ?thesis
    by (simp add: u_def t_def)
qed

lemma trim_trim: "trim (trim s) = trim s"
  by (simp add: trim_def dropWhile_keeps_front)

lemma canonicalCity_names:
  "canonicalCity (Some ''New York'') = Str ''New York''"
  "canonicalCity (Some ''Los Angeles'') = Str ''Los Angeles''"
  "canonicalCity (Some ''San Francisco'') = Str ''San Francisco''"
  "canonicalCity (Some ''Houston'') = Str ''Houston''"
  "canonicalCity (Some ''Austin'') = Str ''Austin''"
  by (simp_all add: canonicalCity_def lookupIn_def cityMap_def orEmpty_def toLowerCase_def
      lowerChar_def isUpper_def trim_def isSpace_def)

lemma cityMap_values:
  "map_of cityMap k = Some c \<Longrightarrow>
     c \<in> {''New York'', ''Los Angeles'', ''San Francisco'', ''Houston'', ''Austin''}"
  by (auto simp: cityMap_def split: if_splits)

lemma lookupIn_own: "k \<notin> set inheritedKeys \<Longrightarrow> lookupIn table k = map_option Str (map_of table k)"
  by (simp add: lookupIn_def split: option.split)

lemma canonicalCity_unknown:
  "map_of cityMap (toLowerCase (trim s)) = None \<Longrightarrow> toLowerCase (trim s) \<notin> set inheritedKeys \<Longrightarrow>
     canonicalCity (Some s) = Str (trim s)"
  by (simp add: canonicalCity_def orEmpty_def lookupIn_own)

lemma canonicalCity_again:
  assumes "toLowerCase (trim (orEmpty x)) \<notin> set inheritedKeys"
  shows "canonicalCityAgain (canonicalCity x) = Inr (canonicalCity x)"
proof (cases "map_of cityMap (toLowerCase (trim (orEmpty x)))")
  case None
  have r: "canonicalCity x = Str (trim (orEmpty x))"
    using None assms by (cases x) (simp_all add: canonicalCity_def orEmpty_def lookupIn_own trim_def)
  have "canonicalCity (Some (trim (orEmpty x))) = Str (trim (orEmpty x))"
    using None assms by (simp add: canonicalCity_def orEmpty_def lookupIn_own trim_trim)
  then show ?thesis
    using r by simp
next
  case (Some c)
  then have "canonicalCity x = Str c"
    using assms by (simp add: canonicalCity_def lookupIn_own)
  moreover have "canonicalCity (Some c) = Str c"
    using cityMap_values [OF Some] canonicalCity_names by auto
  ultimately show ?thesis
    by simp
qed

lemma set_trim: "set (trim s) \<subseteq> set s"
proof -
  have "set (dropWhile isSpace (rev (dropWhile isSpace s))) \<subseteq> set (rev (dropWhile isSpace s))"
    by (meson set_dropWhileD subsetI)
  moreover have "set (dropWhile isSpace s) \<subseteq> set s"
    by (meson set_dropWhileD subsetI)
  ultimately show ?thesis
    by (auto simp: trim_def)
qed

lemma set_collapseFrom: "set (collapseFrom b s) \<subseteq> insert (CHR '' '') (set s)"
  by (induction s arbitrary: b) auto

lemma replaceDashes_id: "CHR 0xE2 \<notin> set t \<Longrightarrow> replaceDashes t = t"
  by (induction t) (auto simp: replaceDashes_def isDash_def)

lemma no_dash_after_normalizing:
  assumes "CHR 0xE2 \<notin> set (toLowerCase value)"
  shows "CHR 0xE2 \<notin> set (collapseWs (toLowerCase (trim value)))"
proof -
  have "set (toLowerCase (trim value)) \<subseteq> set (toLowerCase value)"
    using set_trim [of "value"] by (auto simp: toLowerCase_def)
  then have "set (collapseWs (toLowerCase (trim value))) \<subseteq> insert (CHR '' '') (set (toLowerCase value))"
    using set_collapseFrom [of False "toLowerCase (trim value)"] by (auto simp: collapseWs_def)
  then show ?thesis
    using assms by auto
qed

lemma canonicalDiet_unknown:
  "map_of dietMap (replaceDashes (collapseWs (toLowerCase (trim value)))) = None \<Longrightarrow>
   replaceDashes (collapseWs (toLowerCase (trim value))) \<notin> set inheritedKeys \<Longrightarrow>
     canonicalDiet value = Str (replaceDashes (collapseWs (toLowerCase (trim value))))"
  by (simp add: canonicalDiet_def lookupIn_own trim_def toLowerCase_def collapseWs_def
      replaceDashes_def)

text \<open>
  Idempotence holds away from the two inherited names: for every other input, also
  \<open>null\<close>, canonicalizing the result again returns it, and a city with no entry in the
  table comes back trimmed and otherwise unchanged.
\<close>

lemma canonicalCity_idempotent_on_own_keys:
  "toLowerCase (trim (orEmpty x)) \<notin> set inheritedKeys \<Longrightarrow>
     canonicalCityAgain (canonicalCity x) = Inr (canonicalCity x) \<and>
     (\<forall>s. x = Some s \<and> map_of cityMap (toLowerCase (trim s)) = None \<longrightarrow>
        canonicalCity x = Str (trim s))"
  using canonicalCity_again [of x] canonicalCity_unknown by (auto simp: orEmpty_def)


section \<open>Claims about canonicalization\<close>

text \<open>
  C5. The specification has \<open>canonicalCity\<close> idempotent on every string, an unknown city
  coming back as the trimmed input. The table has no entry for "constructor", and the result
  is not that string: the lookup finds the function every object inherits under that name,
  and canonicalizing the result again throws.
\<close>

theorem canonicalCity_inherited_key:
  "map_of cityMap (toLowerCase (trim ''constructor'')) = None \<and>
   canonicalCity (Some ''constructor'') = Inherited ''constructor'' \<and>
   canonicalCityAgain (canonicalCity (Some ''constructor'')) = Inl TypeError"
  by (simp add: canonicalCity_def lookupIn_def inheritedKeys_def orEmpty_def cityMap_def
      toLowerCase_def lowerChar_def isUpper_def trim_def isSpace_def)

theorem canonicalCity_inherited_key_witness:
  "canonicalCity (Some ''constructor'') \<noteq> Str (trim ''constructor'') \<and>
   canonicalCityAgain (canonicalCity (Some ''constructor'')) \<noteq> Inr (canonicalCity (Some ''constructor''))"
  using canonicalCity_inherited_key by simp

text \<open>
  C6, as the specification states it: for an input with no entry in the synonym table, both
  \<open>canonicalCity\<close> and \<open>canonicalDiet\<close> return the input lowercased, trimmed and with its
  white space collapsed. \<open>canonicalCity\<close> does not: it has no entry for Chicago and returns
  it with its capital letter.
\<close>

theorem canonical_fallback_counterexample:
  "map_of cityMap (toLowerCase (trim ''Chicago'')) = None \<and>
   canonicalCity (Some ''Chicago'') \<noteq> Str (collapseWs (toLowerCase (trim ''Chicago''))) \<and>
   canonicalCity (Some ''Chicago'') = Str ''Chicago'' \<and>
   collapseWs (toLowerCase (trim ''Chicago'')) = ''chicago''"
  by (simp add: canonicalCity_def lookupIn_def inheritedKeys_def orEmpty_def cityMap_def
      toLowerCase_def lowerChar_def isUpper_def trim_def isSpace_def collapseWs_def)

text \<open>
  C6, amended: for an input with no entry in the synonym table, and whose key is not one of
  the two names an object literal inherits, \<open>canonicalDiet\<close> returns the input trimmed,
  lowercased, with every run of white space collapsed to one blank and with the characters
  of its dash class replaced by hyphens, which is the lowercased, trimmed and collapsed input
  when the lowercased input has no such character; \<open>canonicalCity\<close> returns the input
  trimmed only, its case and its inner white space kept.
\<close>

theorem canonical_fallback:
  "(map_of dietMap (replaceDashes (collapseWs (toLowerCase (trim value)))) = None \<and>
    replaceDashes (collapseWs (toLowerCase (trim value))) \<notin> set inheritedKeys \<longrightarrow>
      canonicalDiet value = Str (replaceDashes (collapseWs (toLowerCase (trim value))))) \<and>
   (map_of dietMap (replaceDashes (collapseWs (toLowerCase (trim value)))) = None \<and>
    replaceDashes (collapseWs (toLowerCase (trim value))) \<notin> set inheritedKeys \<and>
    CHR 0xE2 \<notin> set (toLowerCase value) \<longrightarrow>
      canonicalDiet value = Str (collapseWs (toLowerCase (trim value)))) \<and>
   (map_of cityMap (toLowerCase (trim s)) = None \<and>
    toLowerCase (trim s) \<notin> set inheritedKeys \<longrightarrow>
      canonicalCity (Some s) = Str (trim s))"
  using canonicalDiet_unknown [of "value"] canonicalCity_unknown [of s]
    replaceDashes_id [OF no_dash_after_normalizing, of "value"]
  by auto

theorem canonical_fallback_witness:
  "map_of dietMap (replaceDashes (collapseWs (toLowerCase (trim ''  Paleo   Friendly '')))) = None \<and>
   replaceDashes (collapseWs (toLowerCase (trim ''  Paleo   Friendly ''))) \<notin> set inheritedKeys \<and>
   CHR 0xE2 \<notin> set (toLowerCase ''  Paleo   Friendly '') \<and>
   canonicalDiet ''  Paleo   Friendly '' = Str ''paleo friendly'' \<and>
   map_of cityMap (toLowerCase (trim '' Salt  Lake City '')) = None \<and>
   toLowerCase (trim '' Salt  Lake City '') \<notin> set inheritedKeys \<and>
   canonicalCity (Some '' Salt  Lake City '') = Str ''Salt  Lake City''"
proof -
  have n: "collapseWs (toLowerCase (trim ''  Paleo   Friendly '')) = ''paleo friendly''"
    by (simp add: toLowerCase_def lowerChar_def isUpper_def trim_def isSpace_def collapseWs_def)
  have r: "replaceDashes ''paleo friendly'' = ''paleo friendly''"
    by (simp add: replaceDashes_def isDash_def)
  have d: "map_of dietMap (replaceDashes (collapseWs (toLowerCase (trim ''  Paleo   Friendly '')))) = None"
    unfolding n r by (simp add: dietMap_def)
  have di: "replaceDashes (collapseWs (toLowerCase (trim ''  Paleo   Friendly ''))) \<notin> set inheritedKeys"
    unfolding n r by (simp add: inheritedKeys_def)
  have e: "CHR 0xE2 \<notin> set (toLowerCase ''  Paleo   Friendly '')"
    by (simp add: toLowerCase_def lowerChar_def isUpper_def)
  have k: "toLowerCase (trim '' Salt  Lake City '') = ''salt  lake city''"
    by (simp add: toLowerCase_def lowerChar_def isUpper_def trim_def isSpace_def)
  have c: "map_of cityMap (toLowerCase (trim '' Salt  Lake City '')) = None"
    unfolding k by (simp add: cityMap_def)
  have ci: "toLowerCase (trim '' Salt  Lake City '') \<notin> set inheritedKeys"
    unfolding k by (simp add: inheritedKeys_def)
  have t: "trim '' Salt  Lake City '' = ''Salt  Lake City''"
    by (simp add: trim_def isSpace_def)
  from canonical_fallback [of "''  Paleo   Friendly ''" "'' Salt  Lake City ''"] d di e c ci
  have "canonicalDiet ''  Paleo   Friendly '' = Str (collapseWs (toLowerCase (trim ''  Paleo   Friendly '')))"
    and "canonicalCity (Some '' Salt  Lake City '') = Str (trim '' Salt  Lake City '')"
    by blast+
  then show ?thesis
    using d di e c ci n t by simp
qed

section \<open>Verification methods\<close>

lemma str_includes_sublist: "str_includes hay needle = sublist needle hay"
proof (induction hay)
  case Nil
  then show ?case by simp
next
  case (Cons c cs)
  show ?case
    by (simp add: Cons.IH sublist_Cons_right)
qed

lemma keyword_match:
  "list_ex (\<lambda>t. str_includes m t) ks = (\<exists>k\<in>set ks. sublist k m)"
  by (simp add: list_ex_iff str_includes_sublist)

lemmas string_eval = toLowerCase_def lowerChar_def isUpper_def trim_def isSpace_def orEmpty_def

lemma label_visited: "getVerifyLabel (Some (methodName CrunchTeamVisited)) = ''Verified By Crunch''"
  by (simp add: getVerifyLabel_def visitedKeywords_def calledKeywords_def string_eval)

lemma label_called: "getVerifyLabel (Some (methodName CrunchTeamCalled)) = ''Verified By Crunch''"
  by (simp add: getVerifyLabel_def visitedKeywords_def calledKeywords_def string_eval)

lemma label_owner: "getVerifyLabel (Some (methodName OwnerSubmitted)) = []"
  by (simp add: getVerifyLabel_def visitedKeywords_def calledKeywords_def string_eval)

lemma label_null: "getVerifyLabel None = []"
  by (simp add: getVerifyLabel_def string_eval)

lemma classify_phone: "classifyMethod (Some ''Phone call from team'') = Some CrunchTeamCalled"
  by (simp add: classifyMethod_def visitedKeywords_def calledKeywords_def string_eval)

lemma classify_owner: "classifyMethod (Some ''submitted by owner'') = Some OwnerSubmitted"
  by (simp add: classifyMethod_def visitedKeywords_def calledKeywords_def string_eval)

lemma classify_by_keywords:
  "raw \<noteq> [] \<Longrightarrow>
     classifyMethod (Some raw) =
       (if \<exists>k\<in>set visitedKeywords. sublist k (toLowerCase (trim raw)) then Some CrunchTeamVisited
        else if \<exists>k\<in>set calledKeywords. sublist k (toLowerCase (trim raw)) then Some CrunchTeamCalled
        else Some OwnerSubmitted)"
  by (simp add: classifyMethod_def keyword_match)

lemma label_of_canonical:
  "getVerifyLabel (map_option methodName (classifyMethod r)) =
     (if classifyMethod r = Some CrunchTeamVisited \<or> classifyMethod r = Some CrunchTeamCalled
      then ''Verified By Crunch'' else [])"
proof (cases "classifyMethod r")
  case None
  then show ?thesis by (simp add: label_null)
next
  case (Some m)
  then show ?thesis
    using label_visited label_called label_owner by (cases m) simp_all
qed

lemma no_keyword_in_empty:
  "\<not> (\<exists>k\<in>set visitedKeywords. sublist k [])" "\<not> (\<exists>k\<in>set calledKeywords. sublist k [])"
  by (simp_all add: visitedKeywords_def calledKeywords_def)

lemma label_by_keywords:
  "getVerifyLabel (Some raw) =
     (if (\<exists>k\<in>set visitedKeywords. sublist k (toLowerCase (trim raw))) \<or>
         (\<exists>k\<in>set calledKeywords. sublist k (toLowerCase (trim raw)))
      then ''Verified By Crunch'' else [])"
proof (cases "toLowerCase (trim raw) = []")
  case True
  then show ?thesis
    using no_keyword_in_empty by (simp add: getVerifyLabel_def orEmpty_def)
next
  case False
  then show ?thesis
    by (simp add: getVerifyLabel_def orEmpty_def keyword_match)
qed

text \<open>
  C4. A raw verification method is classified by what its trimmed, lowercased text contains:
  a keyword of the visited set gives Crunch Team Visited, otherwise a keyword of the called
  set gives Crunch Team Called, otherwise a non-empty raw value gives Owner Submitted;
  \<open>null\<close> and the empty string stay \<open>null\<close>. The display label of the canonical method is
  non-empty (Verified By Crunch) exactly for the two external classifications, and empty for
  Owner Submitted and \<open>null\<close>; the label of a raw value is decided by the same two keyword
  sets. "Phone call from team" is classified as called, "submitted by owner" as owner
  submitted.
\<close>

theorem verification_classification:
  "classifyMethod None = None \<and> classifyMethod (Some []) = None \<and>
   (raw \<noteq> [] \<longrightarrow>
      classifyMethod (Some raw) =
        (if \<exists>k\<in>set visitedKeywords. sublist k (toLowerCase (trim raw)) then Some CrunchTeamVisited
         else if \<exists>k\<in>set calledKeywords. sublist k (toLowerCase (trim raw)) then Some CrunchTeamCalled
         else Some OwnerSubmitted)) \<and>
   getVerifyLabel (map_option methodName (classifyMethod r)) =
     (if classifyMethod r = Some CrunchTeamVisited \<or> classifyMethod r = Some CrunchTeamCalled
      then ''Verified By Crunch'' else []) \<and>
   getVerifyLabel (Some raw) =
     (if (\<exists>k\<in>set visitedKeywords. sublist k (toLowerCase (trim raw))) \<or>
         (\<exists>k\<in>set calledKeywords. sublist k (toLowerCase (trim raw)))
      then ''Verified By Crunch'' else []) \<and>
   getVerifyLabel (Some (methodName OwnerSubmitted)) = [] \<and> getVerifyLabel None = [] \<and>
   classifyMethod (Some ''Phone call from team'') = Some CrunchTeamCalled \<and>
   classifyMethod (Some ''submitted by owner'') = Some OwnerSubmitted"
proof -
  have "classifyMethod None = None" and "classifyMethod (Some []) = None"
    by (simp_all add: classifyMethod_def)
  then show ?thesis
    using classify_by_keywords [of raw] label_of_canonical [of r] label_by_keywords [of raw]
      label_owner label_null classify_phone classify_owner
    by presburger
qed

theorem verification_classification_witness:
  "''Site Visit, May 2024'' \<noteq> [] \<and>
   classifyMethod (Some ''Site Visit, May 2024'') = Some CrunchTeamVisited \<and>
   getVerifyLabel (map_option methodName (classifyMethod (Some ''Site Visit, May 2024''))) =
     ''Verified By Crunch'' \<and>
   getVerifyLabel (Some ''Site Visit, May 2024'') = ''Verified By Crunch''"
proof -
  have v: "\<exists>k\<in>set visitedKeywords. sublist k (toLowerCase (trim ''Site Visit, May 2024''))"
    unfolding keyword_match [symmetric]
    by (simp add: visitedKeywords_def string_eval)
  have n: "''Site Visit, May 2024'' \<noteq> []"
    by simp
  note th = verification_classification [of "''Site Visit, May 2024''" "Some ''Site Visit, May 2024''"]
  from th n v have c: "classifyMethod (Some ''Site Visit, May 2024'') = Some CrunchTeamVisited"
    by presburger
  from th have "getVerifyLabel (map_option methodName (classifyMethod (Some ''Site Visit, May 2024''))) =
       (if classifyMethod (Some ''Site Visit, May 2024'') = Some CrunchTeamVisited \<or>
           classifyMethod (Some ''Site Visit, May 2024'') = Some CrunchTeamCalled
        then ''Verified By Crunch'' else [])"
    by blast
  then have l: "getVerifyLabel (map_option methodName (classifyMethod (Some ''Site Visit, May 2024''))) =
       ''Verified By Crunch''"
    by (simp only: c simp_thms if_True)
  from th have "getVerifyLabel (Some ''Site Visit, May 2024'') =
     (if (\<exists>k\<in>set visitedKeywords. sublist k (toLowerCase (trim ''Site Visit, May 2024''))) \<or>
         (\<exists>k\<in>set calledKeywords. sublist k (toLowerCase (trim ''Site Visit, May 2024'')))
      then ''Verified By Crunch'' else [])"
    by blast
  then have "getVerifyLabel (Some ''Site Visit, May 2024'') = ''Verified By Crunch''"
    using v by (simp only: simp_thms if_True)
  with c l n show ?thesis
    by blast
qed

section \<open>The filter and sort engine: which restaurants are shown\<close>

lemma set_insertSorted: "set (insertSorted cmp x xs) = insert x (set xs)"
  by (induction xs) auto

lemma set_stableSort: "set (stableSort cmp xs) = set xs"
  by (induction xs) (simp_all add: stableSort_def set_insertSorted)

lemma passesFilters_iff:
  "passesFilters q f selCity r \<longleftrightarrow>
     getCity r = canonicalCity (Some selCity) \<and>
     (sublist (toLowerCase q) (toLowerCase (name r)) \<or>
      sublist (toLowerCase q) (toLowerCase (cuisine r)) \<or>
      sublist (toLowerCase q) (toLowerCase (neighborhood r))) \<and>
     (diet f \<noteq> [] \<longrightarrow>
        (\<exists>d\<in>set (diet f). canonicalDiet d \<in> canonicalDiet ` set (dietaryTags r))) \<and>
     (oils f \<noteq> [] \<longrightarrow> (\<exists>oil\<in>set (oils f). oil \<in> set (oilsUsed r))) \<and>
     (neighborhoodF f \<noteq> [] \<longrightarrow> neighborhood r = neighborhoodF f) \<and>
     (priceRangeF f \<noteq> [] \<longrightarrow> priceRange r = priceRangeF f) \<and>
     (verifiedF f \<longrightarrow> verified r)"
  unfolding passesFilters_def Let_def str_includes_sublist list_ex_iff
  by auto

lemmas example_restaurants =
  restaurantA_def restaurantB_def restaurantC_def blankRestaurant_def ketoFilter_def noFilters_def

lemma example_cities:
  "getCity restaurantA = Str ''New York''" "getCity restaurantB = Str ''New York''"
  "getCity restaurantC = Str ''Los Angeles''" "canonicalCity (Some ''NYC'') = Str ''New York''"
  by (simp_all add: example_restaurants getCity_def canonicalCity_def lookupIn_def cityMap_def
      string_eval)

lemma example_diets:
  "canonicalDiet ''Keto'' = Str ''keto''" "canonicalDiet ''Vegan'' = Str ''vegan''"
  by (simp_all add: canonicalDiet_def lookupIn_def inheritedKeys_def dietMap_def collapseWs_def
      replaceDashes_def isDash_def string_eval)

text \<open>
  C1. A restaurant is in the output of the filter and sort engine exactly when it is in the
  input list and: its derived city equals the canonical selected city; the lowercased query
  occurs in its lowercased name, cuisine or neighborhood; if diet tags are selected, one of
  them, canonicalized, is among its canonicalized tags; if oils are selected, one of them is
  in \<open>oilsUsed\<close> as written; a neighborhood filter, a price filter and the verified filter,
  when set, are met exactly. The empty query occurs in every string.
\<close>

theorem filteredRestaurants_membership:
  "(r \<in> set (filteredRestaurants rt rs q f selCity sortKey) \<longleftrightarrow>
      r \<in> set rs \<and>
      getCity r = canonicalCity (Some selCity) \<and>
      (sublist (toLowerCase q) (toLowerCase (name r)) \<or>
       sublist (toLowerCase q) (toLowerCase (cuisine r)) \<or>
       sublist (toLowerCase q) (toLowerCase (neighborhood r))) \<and>
      (diet f \<noteq> [] \<longrightarrow>
         (\<exists>d\<in>set (diet f). canonicalDiet d \<in> canonicalDiet ` set (dietaryTags r))) \<and>
      (oils f \<noteq> [] \<longrightarrow> (\<exists>oil\<in>set (oils f). oil \<in> set (oilsUsed r))) \<and>
      (neighborhoodF f \<noteq> [] \<longrightarrow> neighborhood r = neighborhoodF f) \<and>
      (priceRangeF f \<noteq> [] \<longrightarrow> priceRange r = priceRangeF f) \<and>
      (verifiedF f \<longrightarrow> verified r)) \<and>
   sublist (toLowerCase []) (toLowerCase (name r))"
proof -
  have "r \<in> set (filteredRestaurants rt rs q f selCity sortKey) \<longleftrightarrow>
          r \<in> set rs \<and> passesFilters q f selCity r"
    by (simp add: filteredRestaurants_def set_stableSort)
  moreover have "sublist (toLowerCase []) (toLowerCase (name r))"
    by (simp add: toLowerCase_def)
  ultimately show ?thesis
    unfolding passesFilters_iff by blast
qed

theorem filteredRestaurants_membership_witness:
  "restaurantA \<in> set (filteredRestaurants exampleRuntime [restaurantA, restaurantB, restaurantC]
                        [] ketoFilter ''NYC'' ByRating) \<and>
   restaurantB \<notin> set (filteredRestaurants exampleRuntime [restaurantA, restaurantB, restaurantC]
                        [] ketoFilter ''NYC'' ByRating) \<and>
   restaurantC \<notin> set (filteredRestaurants exampleRuntime [restaurantA, restaurantB, restaurantC]
                        [] ketoFilter ''NYC'' ByRating)"
proof -
  let ?out = "filteredRestaurants exampleRuntime [restaurantA, restaurantB, restaurantC]
                [] ketoFilter ''NYC'' ByRating"
  have empty_query: "sublist (toLowerCase []) s" for s :: string
    by (simp add: toLowerCase_def)
  have a: "restaurantA \<in> set ?out"
    unfolding filteredRestaurants_membership
      [of restaurantA exampleRuntime "[restaurantA, restaurantB, restaurantC]" "[]" ketoFilter
        "''NYC''" ByRating, THEN conjunct1]
    using example_cities empty_query by (simp add: example_restaurants)
  have b: "restaurantB \<notin> set ?out"
    unfolding filteredRestaurants_membership
      [of restaurantB exampleRuntime "[restaurantA, restaurantB, restaurantC]" "[]" ketoFilter
        "''NYC''" ByRating, THEN conjunct1]
    using example_diets by (simp add: example_restaurants)
  have c: "restaurantC \<notin> set ?out"
    unfolding filteredRestaurants_membership
      [of restaurantC exampleRuntime "[restaurantA, restaurantB, restaurantC]" "[]" ketoFilter
        "''NYC''" ByRating, THEN conjunct1]
    using example_cities by simp
  from a b c show ?thesis
    by blast
qed

text \<open>The example of the specification, computed: the output is the list of A alone.\<close>

lemma filtering_example:
  "filteredRestaurants exampleRuntime [restaurantA, restaurantB, restaurantC] [] ketoFilter
     ''NYC'' ByRating = [restaurantA]"
proof -
  have "passesFilters [] ketoFilter ''NYC'' restaurantA"
    unfolding passesFilters_iff using example_cities
    by (simp add: example_restaurants toLowerCase_def)
  moreover have "\<not> passesFilters [] ketoFilter ''NYC'' restaurantB"
    unfolding passesFilters_iff using example_diets
    by (simp add: example_restaurants)
  moreover have "\<not> passesFilters [] ketoFilter ''NYC'' restaurantC"
    unfolding passesFilters_iff using example_cities
    by simp
  ultimately show ?thesis
    by (simp add: filteredRestaurants_def stableSort_def)
qed

section \<open>Fetching pages\<close>

lemma storePending_keeps:
  "restaurants (storePending rt pending st) = restaurants st"
  "page (storePending rt pending st) = page st"
  "hasMore (storePending rt pending st) = hasMore st"
  by (simp_all add: storePending_def split: option.split)

lemma storePending_loadError:
  "loadError st = Some e \<Longrightarrow> loadError (storePending rt pending st) = Some e"
  by (simp add: storePending_def split: option.split)

lemma fetchData_unfold:
  "fetchData rt query pending reset st =
     (storePending rt pending
        (storeRestaurants rt reset ((if reset then 0 else page st * 20) + 19)
           (query (cityFilter st) (if reset then 0 else page st * 20)
              ((if reset then 0 else page st * 20) + 19))
           (fetchDataBegin st)))\<lparr> loading := False \<rparr>"
  by (cases reset) (simp_all add: fetchData_def pageSize_def Let_def add.commute)

lemma storeRestaurants_data:
  assumes "restaurantsError response = None" and "restaurantsData response = Some rows"
  shows "restaurants (storeRestaurants rt reset to response st) =
           (if reset then [] else restaurants st) @ map (mapRestaurantRow rt) rows"
    and "page (storeRestaurants rt reset to response st) = (if reset then 1 else page st + 1)"
    and "hasMore (storeRestaurants rt reset to response st) =
           (case countR response of Some n \<Rightarrow> to + 1 < n | None \<Rightarrow> length rows = 20)"
  using assms by (simp_all add: storeRestaurants_def pageSize_def split: option.split)

lemma storeRestaurants_error:
  assumes "restaurantsError response = Some msg"
  shows "storeRestaurants rt reset to response st =
           st\<lparr> loadError := Some (''Failed to load restaurants: '' @ msg) \<rparr>"
  using assms by (simp add: storeRestaurants_def)

lemma fetchDataBegin_fields:
  "restaurants (fetchDataBegin st) = restaurants st" "page (fetchDataBegin st) = page st"
  "hasMore (fetchDataBegin st) = hasMore st"
  "pendingSubmissions (fetchDataBegin st) = pendingSubmissions st"
  "toasts (fetchDataBegin st) = toasts st"
  by (simp_all add: fetchDataBegin_def)

text \<open>
  C7. The page size is 20 and the cursor counts pages from 0. When the restaurants query
  answers with rows, \<open>fetchData(true)\<close> has asked for the offsets 0 to 19, replaces the
  collection with exactly the rows returned, normalized, and sets the cursor to 1;
  \<open>fetchData(false)\<close> has asked for the 20 offsets from cursor times 20, appends the rows
  returned and adds 1 to the cursor. Afterwards \<open>hasMore\<close> holds exactly when the offset
  after the last one asked for is below the total count, if the answer has a count, and
  otherwise exactly when 20 rows were returned.
\<close>

theorem fetchData_pages:
  "pageSize = 20 \<and>
   (restaurantsError (query (cityFilter st) 0 19) = None \<and>
    restaurantsData (query (cityFilter st) 0 19) = Some rows \<longrightarrow>
      restaurants (fetchData rt query pending True st) = map (mapRestaurantRow rt) rows \<and>
      page (fetchData rt query pending True st) = 1 \<and>
      (hasMore (fetchData rt query pending True st) \<longleftrightarrow>
         (case countR (query (cityFilter st) 0 19) of
            Some n \<Rightarrow> 20 < n
          | None \<Rightarrow> length rows = 20))) \<and>
   (restaurantsError (query (cityFilter st) (page st * 20) (page st * 20 + 19)) = None \<and>
    restaurantsData (query (cityFilter st) (page st * 20) (page st * 20 + 19)) = Some rows' \<longrightarrow>
      restaurants (fetchData rt query pending False st) =
        restaurants st @ map (mapRestaurantRow rt) rows' \<and>
      page (fetchData rt query pending False st) = page st + 1 \<and>
      (hasMore (fetchData rt query pending False st) \<longleftrightarrow>
         (case countR (query (cityFilter st) (page st * 20) (page st * 20 + 19)) of
            Some n \<Rightarrow> page st * 20 + 20 < n
          | None \<Rightarrow> length rows' = 20)))"
proof (intro conjI impI)
  show "pageSize = 20"
    by (simp add: pageSize_def)
next
  assume a: "restaurantsError (query (cityFilter st) 0 19) = None \<and>
    restaurantsData (query (cityFilter st) 0 19) = Some rows"
  show "restaurants (fetchData rt query pending True st) = map (mapRestaurantRow rt) rows"
    using a by (simp add: fetchData_unfold storePending_keeps storeRestaurants_data fetchDataBegin_fields
        split: option.split)
  show "page (fetchData rt query pending True st) = 1"
    using a by (simp add: fetchData_unfold storePending_keeps storeRestaurants_data fetchDataBegin_fields
        split: option.split)
  show "hasMore (fetchData rt query pending True st) \<longleftrightarrow>
         (case countR (query (cityFilter st) 0 19) of
            Some n \<Rightarrow> 20 < n
          | None \<Rightarrow> length rows = 20)"
    using a by (simp add: fetchData_unfold storePending_keeps storeRestaurants_data fetchDataBegin_fields
        split: option.split)
next
  assume a: "restaurantsError (query (cityFilter st) (page st * 20) (page st * 20 + 19)) = None \<and>
    restaurantsData (query (cityFilter st) (page st * 20) (page st * 20 + 19)) = Some rows'"
  show "restaurants (fetchData rt query pending False st) =
        restaurants st @ map (mapRestaurantRow rt) rows'"
    using a by (simp add: fetchData_unfold storePending_keeps storeRestaurants_data fetchDataBegin_fields
        split: option.split)
  show "page (fetchData rt query pending False st) = page st + 1"
    using a by (simp add: fetchData_unfold storePending_keeps storeRestaurants_data fetchDataBegin_fields
        split: option.split)
  show "hasMore (fetchData rt query pending False st) \<longleftrightarrow>
         (case countR (query (cityFilter st) (page st * 20) (page st * 20 + 19)) of
            Some n \<Rightarrow> page st * 20 + 20 < n
          | None \<Rightarrow> length rows' = 20)"
    using a by (simp add: fetchData_unfold storePending_keeps storeRestaurants_data fetchDataBegin_fields
        add.commute split: option.split)
qed

text \<open>
  C10. When the restaurants query answers with an error, whether \<open>reset\<close> is true or
  false, \<open>fetchData\<close> leaves the restaurant collection, the cursor and \<open>hasMore\<close> as they
  were and records the message of the error as the load error, which the answer to the
  pending query does not replace.
\<close>

theorem fetchData_query_error:
  "restaurantsError
     (query (cityFilter st) (if reset then 0 else page st * 20)
        ((if reset then 0 else page st * 20) + 19)) = Some msg \<longrightarrow>
   restaurants (fetchData rt query pending reset st) = restaurants st \<and>
   page (fetchData rt query pending reset st) = page st \<and>
   hasMore (fetchData rt query pending reset st) = hasMore st \<and>
   loadError (fetchData rt query pending reset st) = Some (''Failed to load restaurants: '' @ msg)"
proof
  assume a: "restaurantsError
     (query (cityFilter st) (if reset then 0 else page st * 20)
        ((if reset then 0 else page st * 20) + 19)) = Some msg"
  let ?st1 = "(fetchDataBegin st)\<lparr> loadError := Some (''Failed to load restaurants: '' @ msg) \<rparr>"
  have u: "fetchData rt query pending reset st = (storePending rt pending ?st1)\<lparr> loading := False \<rparr>"
    unfolding fetchData_unfold storeRestaurants_error [OF a] ..
  have "loadError (storePending rt pending ?st1) = Some (''Failed to load restaurants: '' @ msg)"
    by (rule storePending_loadError) simp
  then show "restaurants (fetchData rt query pending reset st) = restaurants st \<and>
   page (fetchData rt query pending reset st) = page st \<and>
   hasMore (fetchData rt query pending reset st) = hasMore st \<and>
   loadError (fetchData rt query pending reset st) = Some (''Failed to load restaurants: '' @ msg)"
    unfolding u by (simp add: storePending_keeps fetchDataBegin_fields)
qed

lemma example_filter: "cityFilter exampleState = CityNameIs (Str ''New York'')"
  by (simp add: cityFilter_def exampleState_def canonicalCity_def lookupIn_def cityMap_def
      string_eval)

lemma example_first_page:
  "tableQuery exampleTable (CityNameIs (Str ''New York'')) 0 19 =
     \<lparr> restaurantsData = Some [rowIn 1 ''New York'', rowIn 3 ''New York''],
       restaurantsError = None, countR = Some 2 \<rparr>"
  by (simp add: tableQuery_def exampleTable_def matchesCityFilter_def rowIn_def)

lemma example_second_page:
  "tableQuery exampleTable (CityNameIs (Str ''New York'')) 20 39 =
     \<lparr> restaurantsData = Some [], restaurantsError = None, countR = Some 2 \<rparr>"
  by (simp add: tableQuery_def exampleTable_def matchesCityFilter_def rowIn_def)

theorem fetchData_pages_witness:
  "restaurantsError (tableQuery exampleTable (cityFilter exampleState) 0 19) = None \<and>
   restaurantsData (tableQuery exampleTable (cityFilter exampleState) 0 19) =
     Some [rowIn 1 ''New York'', rowIn 3 ''New York''] \<and>
   restaurants (fetchData exampleRuntime (tableQuery exampleTable) noPending True exampleState) =
     [mapRestaurantRow exampleRuntime (rowIn 1 ''New York''),
      mapRestaurantRow exampleRuntime (rowIn 3 ''New York'')] \<and>
   page (fetchData exampleRuntime (tableQuery exampleTable) noPending True exampleState) = 1 \<and>
   \<not> hasMore (fetchData exampleRuntime (tableQuery exampleTable) noPending True exampleState) \<and>
   restaurantsData (tableQuery exampleTable (cityFilter exampleState) 20 39) = Some [] \<and>
   restaurants (fetchData exampleRuntime (tableQuery exampleTable) noPending False exampleState) =
     [restaurantA] \<and>
   page (fetchData exampleRuntime (tableQuery exampleTable) noPending False exampleState) = 2"
proof -
  let ?q = "tableQuery exampleTable"
  have p: "page exampleState * 20 = 20" "restaurants exampleState = [restaurantA]"
    "page exampleState = 1"
    by (simp_all add: exampleState_def)
  have h1: "restaurantsError (?q (cityFilter exampleState) 0 19) = None \<and>
            restaurantsData (?q (cityFilter exampleState) 0 19) =
              Some [rowIn 1 ''New York'', rowIn 3 ''New York'']"
    by (simp add: example_filter example_first_page)
  have h2: "restaurantsError (?q (cityFilter exampleState) (page exampleState * 20)
               (page exampleState * 20 + 19)) = None \<and>
            restaurantsData (?q (cityFilter exampleState) (page exampleState * 20)
               (page exampleState * 20 + 19)) = Some []"
    by (simp add: p example_filter example_second_page)
  note th = fetchData_pages [of ?q exampleState
      "[rowIn 1 ''New York'', rowIn 3 ''New York'']" exampleRuntime noPending "[]"]
  from th h1 have c1:
    "restaurants (fetchData exampleRuntime ?q noPending True exampleState) =
       map (mapRestaurantRow exampleRuntime) [rowIn 1 ''New York'', rowIn 3 ''New York'']"
    "page (fetchData exampleRuntime ?q noPending True exampleState) = 1"
    "hasMore (fetchData exampleRuntime ?q noPending True exampleState) \<longleftrightarrow>
       (case countR (?q (cityFilter exampleState) 0 19) of
          Some n \<Rightarrow> 20 < n
        | None \<Rightarrow> length [rowIn 1 ''New York'', rowIn 3 ''New York''] = 20)"
    by blast+
  from th h2 have c2:
    "restaurants (fetchData exampleRuntime ?q noPending False exampleState) =
       restaurants exampleState @ map (mapRestaurantRow exampleRuntime) []"
    "page (fetchData exampleRuntime ?q noPending False exampleState) = page exampleState + 1"
    by blast+
  have "\<not> hasMore (fetchData exampleRuntime ?q noPending True exampleState)"
    unfolding c1 by (simp add: example_filter example_first_page)
  moreover have "restaurantsData (?q (cityFilter exampleState) 20 39) = Some []"
    by (simp add: example_filter example_second_page)
  ultimately show ?thesis
    using h1 c1(1,2) c2 by (simp add: p)
qed

theorem fetchData_query_error_witness:
  "restaurantsError (failingQuery ''timeout'' (cityFilter exampleState) 0 19) = Some ''timeout'' \<and>
   restaurants (fetchData exampleRuntime (failingQuery ''timeout'') noPending True exampleState) =
     [restaurantA] \<and>
   page (fetchData exampleRuntime (failingQuery ''timeout'') noPending True exampleState) = 1 \<and>
   hasMore (fetchData exampleRuntime (failingQuery ''timeout'') noPending True exampleState) \<and>
   loadError (fetchData exampleRuntime (failingQuery ''timeout'') noPending True exampleState) =
     Some ''Failed to load restaurants: timeout''"
proof -
  have e: "restaurantsError (failingQuery ''timeout'' (cityFilter exampleState) 0 19) = Some ''timeout''"
    by (simp add: failingQuery_def)
  have p: "restaurants exampleState = [restaurantA]" "page exampleState = 1" "hasMore exampleState"
    by (simp_all add: exampleState_def)
  show ?thesis
    using fetchData_query_error [of "failingQuery ''timeout''" exampleState True "''timeout''"
        exampleRuntime noPending] e p
    by simp
qed

section \<open>Approving a submission\<close>

lemma showToastMessage_fields:
  "restaurants (showToastMessage m t st) = restaurants st"
  "pendingSubmissions (showToastMessage m t st) = pendingSubmissions st"
  "toasts (showToastMessage m t st) = toasts st @ [\<lparr> message = m, toastType = t \<rparr>]"
  by (simp_all add: showToastMessage_def)

lemma pending_entry_found:
  "s \<in> set (pendingSubmissions st) \<Longrightarrow>
     \<exists>submission. find (\<lambda>x. idP x = idP s) (pendingSubmissions st) = Some submission \<and>
       idP submission = idP s \<and> submission \<in> set (pendingSubmissions st)"
proof -
  assume "s \<in> set (pendingSubmissions st)"
  then have "find (\<lambda>x. idP x = idP s) (pendingSubmissions st) \<noteq> None"
    by (auto simp: find_None_iff)
  then obtain submission where f: "find (\<lambda>x. idP x = idP s) (pendingSubmissions st) = Some submission"
    by blast
  then have "idP submission = idP s \<and> submission \<in> set (pendingSubmissions st)"
    by (auto simp: find_Some_iff)
  with f show ?thesis by blast
qed

lemma approveSubmission_inserted:
  assumes "find (\<lambda>s. idP s = sid) (pendingSubmissions st) = Some submission"
    and "insertErr (insertRow (toRestaurantInsertFromPending rt submission)) = None"
    and "inserted (insertRow (toRestaurantInsertFromPending rt submission)) = Some row"
  shows "pendingSubmissions (approveSubmission rt insertRow deletePending sid st) =
           filter (\<lambda>s. idP s \<noteq> sid) (pendingSubmissions st)"
    and "restaurants (approveSubmission rt insertRow deletePending sid st) =
           restaurants st @ [mapRestaurantRow rt row]"
    and "toasts (approveSubmission rt insertRow deletePending sid st) =
           toasts st @
           (case deletePending sid of
              Some msg \<Rightarrow>
                [\<lparr> message = ''Warning: added to restaurants but failed to remove pending: '' @ msg,
                   toastType = Error \<rparr>]
            | None \<Rightarrow> []) @
           [\<lparr> message = ''Submission approved and added to listings!'', toastType = Success \<rparr>]"
  using assms
  by (simp_all add: approveSubmission_def Let_def fetchDataBegin_fields showToastMessage_fields
      split: option.split)

lemma payload_placeholders:
  "oils_usedIns (toRestaurantInsertFromPending rt p) = [''To Be Verified'']"
  "oils_avoidedIns (toRestaurantInsertFromPending rt p) = [''To Be Verified'']"
  "ratingIns (toRestaurantInsertFromPending rt p) = 0"
  "hoursIns (toRestaurantInsertFromPending rt p) = ''TBD''"
  "nameIns (toRestaurantInsertFromPending rt p) = nameP p"
  "addressIns (toRestaurantInsertFromPending rt p) = addressP p"
  "cityIns (toRestaurantInsertFromPending rt p) = cityP p"
  by (simp_all add: toRestaurantInsertFromPending_def)

lemma approveSubmission_insert_fails:
  assumes "find (\<lambda>s. idP s = sid) (pendingSubmissions st) = Some submission"
    and "insertErr (insertRow (toRestaurantInsertFromPending rt submission)) = Some msg"
  shows "approveSubmission rt insertRow deletePending sid st =
           showToastMessage (''Approve failed: '' @ msg) Error st"
  using assms by (simp add: approveSubmission_def)

text \<open>
  C9. The payload built from a pending submission copies the fields the submission has and
  fills the others with placeholders: the oils are "To Be Verified", the rating is 0, the
  hours are "TBD". For a submission found in the pending collection under the identifier
  (the first entry that carries it), when the insert answers with the row stored,
  \<open>approveSubmission\<close> leaves no entry with that identifier in the pending collection and
  appends the normalized inserted row to the restaurant collection, whether the deletion of
  the pending row succeeds or fails; when it fails, a warning notice precedes the notice of
  success.
\<close>

theorem approveSubmission_moves:
  "oils_usedIns (toRestaurantInsertFromPending rt p) = [''To Be Verified''] \<and>
   oils_avoidedIns (toRestaurantInsertFromPending rt p) = [''To Be Verified''] \<and>
   ratingIns (toRestaurantInsertFromPending rt p) = 0 \<and>
   hoursIns (toRestaurantInsertFromPending rt p) = ''TBD'' \<and>
   nameIns (toRestaurantInsertFromPending rt p) = nameP p \<and>
   addressIns (toRestaurantInsertFromPending rt p) = addressP p \<and>
   cityIns (toRestaurantInsertFromPending rt p) = cityP p \<and>
   (find (\<lambda>s. idP s = sid) (pendingSubmissions st) = Some submission \<and>
    insertErr (insertRow (toRestaurantInsertFromPending rt submission)) = None \<and>
    inserted (insertRow (toRestaurantInsertFromPending rt submission)) = Some row \<longrightarrow>
      sid \<notin> idP ` set (pendingSubmissions (approveSubmission rt insertRow deletePending sid st)) \<and>
      pendingSubmissions (approveSubmission rt insertRow deletePending sid st) =
        filter (\<lambda>s. idP s \<noteq> sid) (pendingSubmissions st) \<and>
      restaurants (approveSubmission rt insertRow deletePending sid st) =
        restaurants st @ [mapRestaurantRow rt row] \<and>
      toasts (approveSubmission rt insertRow deletePending sid st) =
        toasts st @
        (case deletePending sid of
           Some msg \<Rightarrow>
             [\<lparr> message = ''Warning: added to restaurants but failed to remove pending: '' @ msg,
                toastType = Error \<rparr>]
         | None \<Rightarrow> []) @
        [\<lparr> message = ''Submission approved and added to listings!'', toastType = Success \<rparr>])"
proof (intro conjI impI)
  assume a: "find (\<lambda>s. idP s = sid) (pendingSubmissions st) = Some submission \<and>
    insertErr (insertRow (toRestaurantInsertFromPending rt submission)) = None \<and>
    inserted (insertRow (toRestaurantInsertFromPending rt submission)) = Some row"
  note r = approveSubmission_inserted [of sid st submission insertRow rt row deletePending]
  show "pendingSubmissions (approveSubmission rt insertRow deletePending sid st) =
        filter (\<lambda>s. idP s \<noteq> sid) (pendingSubmissions st)"
    using a r(1) by blast
  then show "sid \<notin> idP ` set (pendingSubmissions (approveSubmission rt insertRow deletePending sid st))"
    by auto
  show "restaurants (approveSubmission rt insertRow deletePending sid st) =
        restaurants st @ [mapRestaurantRow rt row]"
    using a r(2) by blast
  show "toasts (approveSubmission rt insertRow deletePending sid st) =
        toasts st @
        (case deletePending sid of
           Some msg \<Rightarrow>
             [\<lparr> message = ''Warning: added to restaurants but failed to remove pending: '' @ msg,
                toastType = Error \<rparr>]
         | None \<Rightarrow> []) @
        [\<lparr> message = ''Submission approved and added to listings!'', toastType = Success \<rparr>]"
    using a r(3) by blast
qed (simp_all add: payload_placeholders)

theorem approveSubmission_moves_witness:
  "find (\<lambda>s. idP s = 7) (pendingSubmissions exampleState) = Some examplePending \<and>
   insertErr (insertStores 42 (toRestaurantInsertFromPending exampleRuntime examplePending)) = None \<and>
   inserted (insertStores 42 (toRestaurantInsertFromPending exampleRuntime examplePending)) =
     Some (storedRow 42 (toRestaurantInsertFromPending exampleRuntime examplePending)) \<and>
   pendingSubmissions
     (approveSubmission exampleRuntime (insertStores 42) (deleteFails ''row locked'') 7 exampleState) = [] \<and>
   restaurants
     (approveSubmission exampleRuntime (insertStores 42) (deleteFails ''row locked'') 7 exampleState) =
     [restaurantA,
      mapRestaurantRow exampleRuntime
        (storedRow 42 (toRestaurantInsertFromPending exampleRuntime examplePending))] \<and>
   toasts
     (approveSubmission exampleRuntime (insertStores 42) (deleteFails ''row locked'') 7 exampleState) =
     [\<lparr> message = ''Warning: added to restaurants but failed to remove pending: row locked'',
        toastType = Error \<rparr>,
      \<lparr> message = ''Submission approved and added to listings!'', toastType = Success \<rparr>] \<and>
   oilsUsed (mapRestaurantRow exampleRuntime
      (storedRow 42 (toRestaurantInsertFromPending exampleRuntime examplePending))) =
     [''To Be Verified''] \<and>
   rating (mapRestaurantRow exampleRuntime
      (storedRow 42 (toRestaurantInsertFromPending exampleRuntime examplePending))) = 0 \<and>
   hours (mapRestaurantRow exampleRuntime
      (storedRow 42 (toRestaurantInsertFromPending exampleRuntime examplePending))) = ''TBD''"
proof -
  let ?p = "toRestaurantInsertFromPending exampleRuntime examplePending"
  let ?st = "approveSubmission exampleRuntime (insertStores 42) (deleteFails ''row locked'') 7 exampleState"
  have h: "find (\<lambda>s. idP s = 7) (pendingSubmissions exampleState) = Some examplePending \<and>
           insertErr (insertStores 42 ?p) = None \<and>
           inserted (insertStores 42 ?p) = Some (storedRow 42 ?p)"
    by (simp add: exampleState_def examplePending_def insertStores_def)
  note th = approveSubmission_moves [of exampleRuntime examplePending 7 exampleState examplePending
      "insertStores 42" "storedRow 42 ?p" "deleteFails ''row locked''"]
  from th h have c:
    "pendingSubmissions ?st = filter (\<lambda>s. idP s \<noteq> 7) (pendingSubmissions exampleState)"
    "restaurants ?st = restaurants exampleState @ [mapRestaurantRow exampleRuntime (storedRow 42 ?p)]"
    "toasts ?st =
        toasts exampleState @
        (case deleteFails ''row locked'' 7 of
           Some msg \<Rightarrow>
             [\<lparr> message = ''Warning: added to restaurants but failed to remove pending: '' @ msg,
                toastType = Error \<rparr>]
         | None \<Rightarrow> []) @
        [\<lparr> message = ''Submission approved and added to listings!'', toastType = Success \<rparr>]"
    by blast+
  from th have pl: "oils_usedIns ?p = [''To Be Verified'']" "ratingIns ?p = 0" "hoursIns ?p = ''TBD''"
    by blast+
  have m: "oilsUsed (mapRestaurantRow exampleRuntime (storedRow 42 ?p)) = [''To Be Verified'']"
    "rating (mapRestaurantRow exampleRuntime (storedRow 42 ?p)) = 0"
    "hours (mapRestaurantRow exampleRuntime (storedRow 42 ?p)) = ''TBD''"
    by (simp_all add: mapRestaurantRow_def storedRow_def blankRow_def pl orDefault_def orEmpty_def)
  have "pendingSubmissions ?st = []" "restaurants ?st = [restaurantA, mapRestaurantRow exampleRuntime (storedRow 42 ?p)]"
    "toasts ?st =
     [\<lparr> message = ''Warning: added to restaurants but failed to remove pending: row locked'',
        toastType = Error \<rparr>,
      \<lparr> message = ''Submission approved and added to listings!'', toastType = Success \<rparr>]"
    unfolding c by (simp_all add: exampleState_def examplePending_def deleteFails_def)
  with h m show ?thesis
    by blast
qed

section \<open>The view on mount\<close>

lemma viewFromHash_table:
  "viewFromHash hash =
     (case viewOfName (toLowerCase (stripHash hash)) of Some v \<Rightarrow> v | None \<Rightarrow> Home)"
  by (simp add: viewFromHash_def viewOfName_def Let_def)

lemma getInitialView_valid:
  "getInitialView saved =
     (case saved of
        Item s \<Rightarrow> (case viewOfName s of Some v \<Rightarrow> v | None \<Rightarrow> Home)
      | _ \<Rightarrow> Home)"
  by (simp add: getInitialView_def)

lemma viewFromHash_examples:
  "viewFromHash ''#/unknown'' = Home" "viewFromHash [] = Home" "viewFromHash ''#/about'' = About"
  "viewFromHash ''#/Results'' = Results" "viewFromHash ''#admin'' = Admin"
  by (simp_all add: viewFromHash_def string_eval)

lemma viewOfName_names:
  "viewOfName s \<noteq> None \<longleftrightarrow>
     s \<in> set [''home'', ''results'', ''about'', ''contact'', ''suggest'', ''admin'']"
  by (simp add: viewOfName_def)

text \<open>
  What holds of the two functions the component resolves a view with: the persisted value
  counts when it is one of the six names, and the fragment without its leading \<open>#\<close> or
  \<open>#/\<close>, lowercased, gives the view it names, and Home when it names none, as for
  \<open>#/unknown\<close> and for no fragment.
\<close>

lemma view_resolution:
  "(viewOfName s \<noteq> None \<longleftrightarrow>
      s \<in> set [''home'', ''results'', ''about'', ''contact'', ''suggest'', ''admin'']) \<and>
   getInitialView saved =
     (case saved of
        Item s \<Rightarrow> (case viewOfName s of Some v \<Rightarrow> v | None \<Rightarrow> Home)
      | _ \<Rightarrow> Home) \<and>
   viewFromHash hash =
     (case viewOfName (toLowerCase (stripHash hash)) of Some v \<Rightarrow> v | None \<Rightarrow> Home) \<and>
   viewFromHash ''#/unknown'' = Home \<and>
   viewFromHash [] = Home"
  using viewOfName_names [of s] getInitialView_valid [of saved] viewFromHash_table [of hash]
    viewFromHash_examples(1,2)
  by (simp only: simp_thms)

lemma viewFromHash_viewName:
  "viewFromHash (''#/'' @ viewName v) = v" "viewFromHash (CHR ''#'' # CHR ''/'' # viewName v) = v"
  by (cases v; simp add: viewFromHash_def string_eval)+

lemma viewName_differs: "v \<noteq> w \<Longrightarrow> ''#/'' @ viewName v \<noteq> ''#/'' @ viewName w"
  by (cases v; cases w) simp_all

lemma last_call_wins: "foldl (\<lambda>v u. u) w (us @ [x]) = x"
  by simp

text \<open>
  The state after the first render and its effects, when the fragment is not the one the
  effect writes: the fragment has been rewritten to the view of the first render, and one
  \<open>hashchange\<close> event is pending.
\<close>

lemma mounted_state:
  assumes "hash \<noteq> ''#/'' @ viewName (getInitialView saved)"
  shows "mounted saved hash =
     \<lparr> currentView = getInitialView saved,
       queuedViews = (if viewFromHash hash \<noteq> getInitialView saved then [viewFromHash hash] else []),
       locationHash = ''#/'' @ viewName (getInitialView saved),
       queuedHashchanges = 1,
       savedView = (case saved of StorageThrows \<Rightarrow> StorageThrows
                    | _ \<Rightarrow> Item (viewName (getInitialView saved))) \<rparr>"
  using assms
  by (simp add: mounted_def mountEffect_def hashSyncEffect_def persistEffect_def Let_def
      split: stored_item.split)

text \<open>
  Whenever the view of the first render and the view of the fragment differ, both can be
  where the component settles: the view of the first render when the event is delivered
  first, the view of the fragment when the component renders first.
\<close>

lemma hashchange_first:
  assumes "hash \<noteq> ''#/'' @ viewName (getInitialView saved)"
  shows "\<exists>st. runTasks [Hashchange, Rerender] (mounted saved hash) = Some st \<and> settled st \<and>
              currentView st = getInitialView saved"
  by (simp add: mounted_state [OF assms] onHashChange_def rerender_def settled_def
      viewFromHash_viewName Let_def)

lemma rerender_first:
  assumes "viewFromHash hash \<noteq> getInitialView saved"
  shows "\<exists>st. runTasks [Rerender, Hashchange, Hashchange, Rerender] (mounted saved hash) = Some st \<and>
              settled st \<and> currentView st = viewFromHash hash"
proof -
  have h: "hash \<noteq> ''#/'' @ viewName (getInitialView saved)"
    using assms viewFromHash_viewName(1) by metis
  have d: "''#/'' @ viewName (getInitialView saved) \<noteq> ''#/'' @ viewName (viewFromHash hash)"
    using assms viewName_differs by metis
  show ?thesis
    using assms d
    by (simp add: mounted_state [OF h] onHashChange_def rerender_def settled_def
        hashSyncEffect_def persistEffect_def viewFromHash_viewName Let_def)
qed

lemma mounted_in_step:
  "mounted (Item ''about'') ''#/about'' =
     \<lparr> currentView = About, queuedViews = [], locationHash = ''#/about'',
       queuedHashchanges = 0, savedView = Item ''about'' \<rparr>"
  by (simp add: mounted_def mountEffect_def hashSyncEffect_def persistEffect_def
      getInitialView_def viewOfName_def viewFromHash_def string_eval Let_def)

text \<open>
  With "about" persisted and no fragment, the order decides: the persisted view stays when
  the event is delivered first and is replaced by Home when the component renders first.
\<close>

lemma persisted_view_kept:
  "runTasks [Hashchange, Rerender] (mounted (Item ''about'') []) =
     Some \<lparr> currentView = About, queuedViews = [], locationHash = ''#/about'',
            queuedHashchanges = 0, savedView = Item ''about'' \<rparr>"
  by (simp add: mounted_def mountEffect_def hashSyncEffect_def persistEffect_def onHashChange_def
      rerender_def getInitialView_def viewOfName_def viewFromHash_def string_eval Let_def)

lemma persisted_view_lost:
  "runTasks [Rerender, Hashchange, Hashchange, Rerender] (mounted (Item ''about'') []) =
     Some \<lparr> currentView = Home, queuedViews = [], locationHash = ''#/home'',
            queuedHashchanges = 0, savedView = Item ''home'' \<rparr>"
  by (simp add: mounted_def mountEffect_def hashSyncEffect_def persistEffect_def onHashChange_def
      rerender_def getInitialView_def viewOfName_def viewFromHash_def string_eval Let_def)

lemma fragment_kept:
  "runTasks [Rerender, Hashchange, Hashchange, Rerender] (mounted NoItem ''#/admin'') =
     Some \<lparr> currentView = Admin, queuedViews = [], locationHash = ''#/admin'',
            queuedHashchanges = 0, savedView = Item ''admin'' \<rparr>"
  by (simp add: mounted_def mountEffect_def hashSyncEffect_def persistEffect_def onHashChange_def
      rerender_def getInitialView_def viewFromHash_def string_eval Let_def)

text \<open>
  C8. The specification has the view on mount be the persisted value when that is one of
  the six states, else Home, overridden by the fragment when a fragment is present and names
  a view. With nothing persisted and the fragment \<open>#/admin\<close> the view would be Admin. The
  first render shows Home, and its effects queue a change of the view to Admin, but also
  rewrite the fragment to \<open>#/home\<close>, which queues a \<open>hashchange\<close> event. When that event
  is delivered before the component renders again, \<open>onHashChange\<close> reads \<open>#/home\<close> and
  the component settles on Home: the fragment it was opened with is lost.
\<close>

theorem fragment_lost_on_mount:
  "viewFromHash ''#/admin'' = Admin \<and>
   getInitialView NoItem = Home \<and>
   runTasks [Hashchange, Rerender] (mounted NoItem ''#/admin'') =
     Some \<lparr> currentView = Home, queuedViews = [], locationHash = ''#/home'',
            queuedHashchanges = 0, savedView = Item ''home'' \<rparr> \<and>
   settled \<lparr> currentView = Home, queuedViews = [], locationHash = ''#/home'',
            queuedHashchanges = 0, savedView = Item ''home'' \<rparr>"
  by (simp add: mounted_def mountEffect_def hashSyncEffect_def persistEffect_def onHashChange_def
      rerender_def settled_def getInitialView_def viewFromHash_def string_eval Let_def)

theorem fragment_lost_on_mount_witness:
  "map_option currentView (runTasks [Hashchange, Rerender] (mounted NoItem ''#/admin'')) \<noteq>
     Some (viewFromHash ''#/admin'')"
  using fragment_lost_on_mount by simp

section \<open>Image resolution\<close>

lemma fallback_absolute: "isAbsoluteUrl fallbackImage"
  by (simp add: isAbsoluteUrl_def fallbackImage_def toLowerCase_def lowerChar_def isUpper_def)

lemma absoluteString_regexTest: "absoluteString v \<Longrightarrow> regexTest v"
  by (cases v) (simp_all add: absoluteString_def)

lemma find_holds: "find P xs = Some x \<Longrightarrow> P x"
  by (auto simp: find_Some_iff)

lemma isImageEntry_string: "isImageEntry x \<Longrightarrow> isString x \<Longrightarrow> absoluteString x"
  by (cases x) (simp_all add: isImageEntry_def)

lemma fromParsed_matches: "fromParsed p = Some r \<Longrightarrow> regexTest r"
proof (cases p)
  case (JArr xs)
  assume r: "fromParsed p = Some r"
  show ?thesis
  proof (cases "find absoluteString xs")
    case (Some x)
    then have "r = x" using r JArr by (simp add: fromParsed_def)
    then show ?thesis using find_holds [OF Some] absoluteString_regexTest by blast
  next
    case None
    then show ?thesis using r JArr
      by (auto simp: fromParsed_def Let_def split: option.splits if_splits)
  qed
next
  case (JObj kvs)
  assume r: "fromParsed p = Some r"
  let ?direct = "jsOr (getProp p ''url'') (getProp p ''src'')"
  show ?thesis
  proof (cases "absoluteString ?direct")
    case True
    then have "r = ?direct" using r JObj by (simp add: fromParsed_def Let_def)
    then show ?thesis using True absoluteString_regexTest by blast
  next
    case False
    then obtain images cand where i: "getProp p ''images'' = JArr images"
      and f: "find isImageEntry images = Some cand"
      and c: "(if isString cand then Some cand
               else (let c = jsOr (getProp cand ''url'') (getProp cand ''src'')
                     in if regexTest c then Some c else None)) = Some r"
      using r JObj
      by (auto simp: fromParsed_def Let_def split: json.splits option.splits)
    show ?thesis
    proof (cases "isString cand")
      case True
      then have "r = cand" using c by simp
      then show ?thesis
        using isImageEntry_string [OF find_holds [OF f] True] absoluteString_regexTest by blast
    next
      case False
      then show ?thesis using c by (auto simp: Let_def split: if_splits)
    qed
  qed
qed (auto simp: fromParsed_def split: if_splits)

lemma resolvePrimaryImage_matches: "regexTest (resolvePrimaryImage rt row)"
proof -
  have f: "regexTest (JStr fallbackImage)"
    by (simp add: fallback_absolute)
  show ?thesis
    unfolding resolvePrimaryImage_def Let_def
    using f fromParsed_matches
    by (auto split: option.splits json.splits)
qed

lemmas image_eval =
  resolvePrimaryImage_def resolveImageArray_def fromParsed_def hasUrlOrSrc_def isImageEntry_def
  absoluteString_def isAbsoluteUrl_def jsOr_def dedupe_def blankRow_def
  toLowerCase_def lowerChar_def isUpper_def trim_def isSpace_def orEmpty_def

lemma not_absolute_empty: "\<not> isAbsoluteUrl []"
  by (simp add: isAbsoluteUrl_def toLowerCase_def)

lemma resolvePrimaryImage_primary:
  "image_url row = Some u \<Longrightarrow> isAbsoluteUrl (trim u) \<Longrightarrow>
     resolvePrimaryImage rt row = JStr (trim u)"
  using not_absolute_empty by (auto simp: resolvePrimaryImage_def orEmpty_def Let_def)

lemma resolvePrimaryImage_string:
  "isString (resolvePrimaryImage rt row) \<Longrightarrow>
     \<exists>s. resolvePrimaryImage rt row = JStr s \<and> isAbsoluteUrl s"
  using resolvePrimaryImage_matches [of rt row]
  by (cases "resolvePrimaryImage rt row") simp_all

text \<open>
  C3. The specification has the image resolved to the first absolute URL found among the
  entries of the secondary field. In an array of objects the program looks at one object
  only, the first that has a string \<open>url\<close> or \<open>src\<close>, and gives up when that one is not
  absolute: with a first object whose \<open>url\<close> is not absolute and a second whose \<open>url\<close> is,
  the image is the fallback, while the gallery, built by \<open>resolveImageArray\<close> from the same
  field, holds the absolute URL of the second object.
\<close>

theorem resolvePrimaryImage_first_object_only:
  "resolvePrimaryImage rt
     (blankRow\<lparr> image_urls :=
        JArr [JObj [(''url'', JStr ''not-a-url'')], JObj [(''url'', JStr ''https://x/b.jpg'')]] \<rparr>) =
     JStr fallbackImage \<and>
   resolveImageArray rt
     (blankRow\<lparr> image_urls :=
        JArr [JObj [(''url'', JStr ''not-a-url'')], JObj [(''url'', JStr ''https://x/b.jpg'')]] \<rparr>) =
     [''https://x/b.jpg'']"
  by (simp add: image_eval)

lemma resolvePrimaryImage_not_a_string:
  "resolvePrimaryImage rt
     (blankRow\<lparr> image_urls :=
        JArr [JObj [(''url'', JArr [JStr ''https://x/a.jpg'']), (''src'', JStr ''s'')]] \<rparr>) =
     JArr [JStr ''https://x/a.jpg'']"
  by (simp add: image_eval)

lemma example_json:
  "readJson ''[\"https://x/a.jpg\",\"not-a-url\"]'' =
     Some (JArr [JStr ''https://x/a.jpg'', JStr ''not-a-url''])"
  by (simp add: readJson_def lexDefault_def isJsonSpace_def punctuation_def escaped_def
      parseStep_def openValue_def closeArray_def closeObject_def setKey_def)

lemma image_resolution_example:
  "resolvePrimaryImage exampleRuntime
     (blankRow\<lparr> image_url := Some ''not-a-url'',
                image_urls := JStr ''[\"https://x/a.jpg\",\"not-a-url\"]'' \<rparr>) =
     JStr ''https://x/a.jpg''"
proof -
  have t: "trim ''[\"https://x/a.jpg\",\"not-a-url\"]'' = ''[\"https://x/a.jpg\",\"not-a-url\"]''"
    by (simp add: trim_def isSpace_def)
  have p: "\<not> isAbsoluteUrl (trim ''not-a-url'')"
    by (simp add: isAbsoluteUrl_def string_eval)
  have a: "isAbsoluteUrl ''https://x/a.jpg''"
    by (simp add: isAbsoluteUrl_def string_eval)
  show ?thesis
    unfolding resolvePrimaryImage_def Let_def
    by (simp add: blankRow_def orEmpty_def p a t exampleRuntime_def example_json fromParsed_def
        absoluteString_def)
qed

theorem resolvePrimaryImage_first_object_only_witness:
  "resolvePrimaryImage exampleRuntime
     (blankRow\<lparr> image_urls :=
        JArr [JObj [(''url'', JStr ''not-a-url'')], JObj [(''url'', JStr ''https://x/b.jpg'')]] \<rparr>) =
     JStr fallbackImage"
  using resolvePrimaryImage_first_object_only [of exampleRuntime] by blast

section \<open>The collections of a normalized restaurant\<close>
















end
